theory Spec2Isabelle
  imports Complex_Main "HOL-Library.List_Lexorder" "HOL-Library.Char_ord"
begin

section \<open>Data model of the game service\<close>

text \<open>
  The JavaScript numbers of the source are modelled as reals (positions, velocities) and
  integers (scores, participant counts, time stamps); where the source adds to a score,
  the rounding of its double-precision arithmetic is written out. Every call of \<open>Math.random()\<close> and of
  \<open>Date.now()\<close> is a parameter of the model, as is the outcome of every storage call and of
  every channel write.
\<close>

datatype Side = Left | Right

datatype Status = Waiting | Active | Paused | Finished

record GamePlayer =
  userId :: string
  username :: string
  paddleY :: real
  score :: int
  isAi :: bool
  side :: Side

record Ball =
  x :: real
  y :: real
  velocityX :: real
  velocityY :: real
  speed :: real

record GameState =
  gameId :: string
  players :: "GamePlayer list"
  ball :: Ball
  status :: Status
  isPrivate :: bool
  maxPlayers :: int
  roomCode :: "string option"
  isAiGame :: bool
  difficulty :: "string option"
  lastUpdate :: int
  winningScore :: int
  gameStartTime :: "int option"

text \<open>The fields \<open>speed\<close>, \<open>accuracy\<close>, \<open>reactionTime\<close> of the interface \<open>AIOpponent\<close>;
  its field \<open>difficulty\<close> carries no information beyond the other three and is the tier.\<close>

datatype Tier = Easy | Medium | Hard | Expert

record AIOpponent =
  tier :: Tier
  aiSpeed :: real
  accuracy :: real
  reactionTime :: int

section \<open>Physics engine\<close>

definition deltaTime :: real where
  "deltaTime = 1 / 60"

text \<open>\<open>initializeBall\<close>: the two random draws are \<open>r1\<close> and \<open>r2\<close>.\<close>

definition initializeBall :: "real \<Rightarrow> real \<Rightarrow> Ball" where
  "initializeBall r1 r2 =
     \<lparr>x = 0.5, y = 0.5, velocityX = (if r1 > 0.5 then 0.6 else - 0.6),
      velocityY = (r2 - 0.5) * 0.4, speed = 1\<rparr>"

text \<open>\<open>resetBall\<close>: the new ball for a serve by \<open>servingPlayer\<close>.\<close>

definition resetBall :: "real \<Rightarrow> Side \<Rightarrow> Ball" where
  "resetBall r servingPlayer =
     \<lparr>x = 0.5, y = 0.5, velocityX = (if servingPlayer = Left then 0.6 else - 0.6),
      velocityY = (r - 0.5) * 0.4, speed = 1\<rparr>"

text \<open>The first element satisfying a test is the object \<open>Array.find\<close> returns; a write to a
  field of that object is a change of that element of the roster.\<close>

fun update_first :: "('a \<Rightarrow> bool) \<Rightarrow> ('a \<Rightarrow> 'a) \<Rightarrow> 'a list \<Rightarrow> 'a list" where
  "update_first P f [] = []"
| "update_first P f (p # ps) = (if P p then f p # ps else p # update_first P f ps)"

definition onSide :: "Side \<Rightarrow> GamePlayer \<Rightarrow> bool" where
  "onSide sd p = (side p = sd)"

text \<open>The blocks of \<open>updateBallPhysics\<close>, in the order of the source.\<close>

definition integrate :: "Ball \<Rightarrow> Ball" where
  "integrate b = b\<lparr>x := x b + velocityX b * speed b * deltaTime,
                   y := y b + velocityY b * speed b * deltaTime\<rparr>"

definition bounceWalls :: "Ball \<Rightarrow> Ball" where
  "bounceWalls b =
     (if y b \<le> 0 \<or> y b \<ge> 1
      then b\<lparr>velocityY := - velocityY b, y := max 0 (min 1 (y b))\<rparr>
      else b)"

definition leftPaddle :: "GamePlayer option \<Rightarrow> Ball \<Rightarrow> Ball" where
  "leftPaddle leftPlayer b =
     (case leftPlayer of
        None \<Rightarrow> b
      | Some p \<Rightarrow>
          if x b \<le> 0.05 \<and> velocityX b < 0 then
            (if y b \<ge> paddleY p - 0.1 \<and> y b \<le> paddleY p + 0.1
             then b\<lparr>velocityX := - velocityX b,
                    velocityY := velocityY b + (y b - paddleY p) * 2,
                    speed := speed b * 1.05,
                    x := 0.05\<rparr>
             else b)
          else b)"

definition rightPaddle :: "GamePlayer option \<Rightarrow> Ball \<Rightarrow> Ball" where
  "rightPaddle rightPlayer b =
     (case rightPlayer of
        None \<Rightarrow> b
      | Some p \<Rightarrow>
          if x b \<ge> 0.95 \<and> velocityX b > 0 then
            (if y b \<ge> paddleY p - 0.1 \<and> y b \<le> paddleY p + 0.1
             then b\<lparr>velocityX := - velocityX b,
                    velocityY := velocityY b + (y b - paddleY p) * 2,
                    speed := speed b * 1.05,
                    x := 0.95\<rparr>
             else b)
          else b)"

text \<open>The ball after integration, wall bounce and paddle collisions: the value of
  \<open>gameState.ball\<close> when the scoring test is reached.\<close>

definition moveBall :: "GameState \<Rightarrow> Ball" where
  "moveBall g =
     rightPaddle (find (onSide Right) (players g))
       (leftPaddle (find (onSide Left) (players g))
         (bounceWalls (integrate (ball g))))"

text \<open>\<open>score++\<close> on a score that is an integer held in a double: the sum is exact from
  \<open>-2^53\<close> up to, but not including, \<open>2^53\<close>. From \<open>2^53\<close> on, and below \<open>-2^53\<close>, the doubles
  are the even integers (the multiples of 4 beyond \<open>2^54\<close>): the sum is rounded to the
  nearest of them, a tie to the one with the even significand. An integer that no
  double holds is not a score of the program.\<close>

definition jsSucc :: "int \<Rightarrow> int" where
  "jsSucc n =
     (if - (2 ^ 53) \<le> n \<and> n < 2 ^ 53 then n + 1
      else if \<bar>n\<bar> < 2 ^ 54 then (if n mod 4 = 0 then n else n + 2)
      else n)"

definition addPoint :: "GamePlayer \<Rightarrow> GamePlayer" where
  "addPoint p = p\<lparr>score := jsSucc (score p)\<rparr>"

definition checkScoring :: "real \<Rightarrow> GameState \<Rightarrow> GameState" where
  "checkScoring r g =
     (if x (ball g) < 0 then
        (case find (onSide Right) (players g) of
           Some rightPlayer \<Rightarrow>
             g\<lparr>players := update_first (onSide Right) addPoint (players g),
               ball := resetBall r Right\<rparr>
         | None \<Rightarrow> g)
      else if x (ball g) > 1 then
        (case find (onSide Left) (players g) of
           Some leftPlayer \<Rightarrow>
             g\<lparr>players := update_first (onSide Left) addPoint (players g),
               ball := resetBall r Left\<rparr>
         | None \<Rightarrow> g)
      else g)"

definition reached :: "GameState \<Rightarrow> Side \<Rightarrow> bool" where
  "reached g sd =
     (case find (onSide sd) (players g) of
        Some p \<Rightarrow> score p \<ge> winningScore g
      | None \<Rightarrow> False)"

definition checkGameEnd :: "GameState \<Rightarrow> GameState" where
  "checkGameEnd g =
     (if reached g Left then g\<lparr>status := Finished\<rparr>
      else if reached g Right then g\<lparr>status := Finished\<rparr>
      else g)"

text \<open>\<open>updateBallPhysics\<close>; \<open>r\<close> is the random draw of \<open>resetBall\<close>.\<close>

definition updateBallPhysics :: "real \<Rightarrow> GameState \<Rightarrow> GameState" where
  "updateBallPhysics r g = checkGameEnd (checkScoring r (g\<lparr>ball := moveBall g\<rparr>))"

section \<open>Synthetic opponent\<close>

definition createAIOpponent :: "Tier \<Rightarrow> AIOpponent" where
  "createAIOpponent t =
     (case t of
        Easy \<Rightarrow> \<lparr>tier = t, aiSpeed = 0.3, accuracy = 0.6, reactionTime = 300\<rparr>
      | Medium \<Rightarrow> \<lparr>tier = t, aiSpeed = 0.5, accuracy = 0.75, reactionTime = 200\<rparr>
      | Hard \<Rightarrow> \<lparr>tier = t, aiSpeed = 0.7, accuracy = 0.85, reactionTime = 150\<rparr>
      | Expert \<Rightarrow> \<lparr>tier = t, aiSpeed = 0.9, accuracy = 0.95, reactionTime = 100\<rparr>)"

definition tierName :: "Tier \<Rightarrow> string" where
  "tierName t = (case t of Easy \<Rightarrow> ''easy'' | Medium \<Rightarrow> ''medium''
                 | Hard \<Rightarrow> ''hard'' | Expert \<Rightarrow> ''expert'')"

text \<open>The body of \<open>calculateAIMove\<close> once the configuration of the session is found;
  \<open>r\<close> is its random draw. The local \<open>currentY\<close> is the constant of the source.\<close>

definition aiMoveWith :: "AIOpponent \<Rightarrow> Ball \<Rightarrow> real \<Rightarrow> real" where
  "aiMoveWith aiConfig b r =
     (let predictedY =
            (if velocityX b > 0
             then max 0.1 (min 0.9 (y b + velocityY b * ((0.95 - x b) / velocityX b)))
             else y b);
          targetY = predictedY + (r - 0.5) * (1 - accuracy aiConfig) * 0.3;
          currentY = 0.5;
          maxMove = aiSpeed aiConfig * 0.02;
          diff = targetY - currentY;
          move = sgn diff * min \<bar>diff\<bar> maxMove
      in max 0.1 (min 0.9 (currentY + move)))"

section \<open>Storage\<close>

text \<open>
  The tables \<open>games\<close>, \<open>game_players\<close>, \<open>users\<close> (its columns \<open>id\<close> and \<open>username\<close>) and
  \<open>game_moves\<close> of the database, with the columns the game service reads or writes. A table
  is the list of its rows in insertion order; \<open>games\<close> is keyed by its primary key \<open>id\<close>.
  The primary key of \<open>game_players\<close> is the pair of \<open>game_id\<close> and \<open>user_id\<close>; the query of
  \<open>getGamePlayers\<close> has no \<open>ORDER BY\<close> and is answered through the index of that key, so
  its rows come sorted by \<open>user_id\<close>, byte by byte.
\<close>

record DbGame =
  room_code :: "string option"
  created_by :: string
  is_private :: bool
  max_players :: int
  db_status :: Status
  db_difficulty :: "string option"
  is_ai_game :: bool

record DbGamePlayer =
  game_id :: string
  user_id :: string
  is_ai :: bool
  db_score :: int

type_synonym conn = nat

datatype GameError =
    GameNotFound | InvalidRoomCode | GameIsFull | UserAlreadyInGame
  | UserNotInGame | GameNotActive | DbFailure

datatype DbCall =
    CreateGame | FindGameById | AddPlayerToGame string | RemovePlayerFromGame
  | GetGamePlayers | UpdateGameStatus | RecordGameMove string | UpdatePlayerScore string
  | IsUserInGame | GetGamePlayerCount

text \<open>What the environment decides during one operation: which storage calls are
  rejected, which channel writes throw, the clock, the random draws and the random
  strings of the identifier and of the room code.\<close>

record Env =
  db_ok :: "DbCall \<Rightarrow> bool"
  send_ok :: "conn \<Rightarrow> bool"
  now :: int
  freshId :: string
  freshCode :: string
  rndDir :: real
  rndSpin :: real
  rndError :: real
  rndServe :: real

text \<open>The maps of \<open>GameService\<close>, the tables, and the list of all calls of
  \<open>connection.send\<close> made so far (channel and snapshot written).\<close>

record World =
  games :: "string \<rightharpoonup> GameState"
  gameConnections :: "string \<rightharpoonup> conn list"
  aiOpponents :: "string \<rightharpoonup> AIOpponent"
  tbl_games :: "(string \<times> DbGame) list"
  tbl_game_players :: "DbGamePlayer list"
  tbl_users :: "string \<rightharpoonup> string"
  tbl_game_moves :: "(string \<times> string \<times> real \<times> int) list"
  sendCalls :: "(conn \<times> GameState) list"

definition playerRows :: "World \<Rightarrow> string \<Rightarrow> DbGamePlayer list" where
  "playerRows w gid = filter (\<lambda>row. game_id row = gid) (tbl_game_players w)"

definition hasRow :: "World \<Rightarrow> string \<Rightarrow> string \<Rightarrow> bool" where
  "hasRow w gid uid = (uid \<in> set (map user_id (playerRows w gid)))"

text \<open>The methods of \<open>DatabaseService\<close>. \<open>None\<close> is a rejected promise: the environment
  refused the call, or the statement broke a key of the table.\<close>

definition db_createGame ::
  "Env \<Rightarrow> World \<Rightarrow> string \<Rightarrow> string \<Rightarrow> string option \<Rightarrow> bool \<Rightarrow> int \<Rightarrow> bool
     \<Rightarrow> string option \<Rightarrow> World option" where
  "db_createGame e w gid createdBy rc priv maxP isAiG diff =
     (let code = (if rc = Some [] then None else rc) in
      if \<not> db_ok e CreateGame then None
      else if map_of (tbl_games w) gid \<noteq> None then None
      else if code \<noteq> None \<and> code \<in> set (map (room_code \<circ> snd) (tbl_games w)) then None
      else Some (w\<lparr>tbl_games := tbl_games w @
             [(gid, \<lparr>room_code = code, created_by = createdBy, is_private = priv,
                     max_players = (if maxP = 0 then 2 else maxP), db_status = Waiting,
                     db_difficulty = (if diff = Some [] then None else diff),
                     is_ai_game = isAiG\<rparr>)]\<rparr>))"

definition db_findGameById :: "Env \<Rightarrow> World \<Rightarrow> string \<Rightarrow> DbGame option option" where
  "db_findGameById e w gid =
     (if db_ok e FindGameById then Some (map_of (tbl_games w) gid) else None)"

definition db_addPlayerToGame ::
  "Env \<Rightarrow> World \<Rightarrow> string \<Rightarrow> string \<Rightarrow> bool \<Rightarrow> World option" where
  "db_addPlayerToGame e w gid uid ai =
     (if \<not> db_ok e (AddPlayerToGame uid) then None
      else if hasRow w gid uid then None
      else Some (w\<lparr>tbl_game_players := tbl_game_players w @
             [\<lparr>game_id = gid, user_id = uid, is_ai = ai, db_score = 0\<rparr>]\<rparr>))"

definition db_removePlayerFromGame :: "Env \<Rightarrow> World \<Rightarrow> string \<Rightarrow> string \<Rightarrow> World option" where
  "db_removePlayerFromGame e w gid uid =
     (if \<not> db_ok e RemovePlayerFromGame then None
      else Some (w\<lparr>tbl_game_players :=
             filter (\<lambda>row. \<not> (game_id row = gid \<and> user_id row = uid)) (tbl_game_players w)\<rparr>))"

definition db_getGamePlayers ::
  "Env \<Rightarrow> World \<Rightarrow> string \<Rightarrow> (DbGamePlayer \<times> string option) list option" where
  "db_getGamePlayers e w gid =
     (if db_ok e GetGamePlayers
      then Some (map (\<lambda>row. (row, tbl_users w (user_id row)))
                   (sort_key user_id (playerRows w gid)))
      else None)"

definition db_updateGameStatus :: "Env \<Rightarrow> World \<Rightarrow> string \<Rightarrow> Status \<Rightarrow> World option" where
  "db_updateGameStatus e w gid st =
     (if \<not> db_ok e UpdateGameStatus then None
      else Some (w\<lparr>tbl_games :=
             map (\<lambda>(k, row). if k = gid then (k, row\<lparr>db_status := st\<rparr>) else (k, row))
               (tbl_games w)\<rparr>))"

definition db_recordGameMove ::
  "Env \<Rightarrow> World \<Rightarrow> string \<Rightarrow> string \<Rightarrow> real \<Rightarrow> int \<Rightarrow> World option" where
  "db_recordGameMove e w gid uid pY ts =
     (if \<not> db_ok e (RecordGameMove uid) then None
      else Some (w\<lparr>tbl_game_moves := tbl_game_moves w @ [(gid, uid, pY, ts)]\<rparr>))"

definition db_updatePlayerScore ::
  "Env \<Rightarrow> World \<Rightarrow> string \<Rightarrow> string \<Rightarrow> int \<Rightarrow> World option" where
  "db_updatePlayerScore e w gid uid sc =
     (if \<not> db_ok e (UpdatePlayerScore uid) then None
      else Some (w\<lparr>tbl_game_players :=
             map (\<lambda>row. if game_id row = gid \<and> user_id row = uid
                         then row\<lparr>db_score := sc\<rparr> else row)
               (tbl_game_players w)\<rparr>))"

definition db_isUserInGame :: "Env \<Rightarrow> World \<Rightarrow> string \<Rightarrow> string \<Rightarrow> bool option" where
  "db_isUserInGame e w gid uid =
     (if db_ok e IsUserInGame then Some (hasRow w gid uid) else None)"

definition db_getGamePlayerCount :: "Env \<Rightarrow> World \<Rightarrow> string \<Rightarrow> int option" where
  "db_getGamePlayerCount e w gid =
     (if db_ok e GetGamePlayerCount then Some (int (length (playerRows w gid))) else None)"

section \<open>Broadcast hub\<close>

definition addConnection :: "World \<Rightarrow> string \<Rightarrow> conn \<Rightarrow> World" where
  "addConnection w gid c =
     (let cs = (case gameConnections w gid of None \<Rightarrow> [] | Some cs \<Rightarrow> cs)
      in w\<lparr>gameConnections := (gameConnections w)(gid \<mapsto> (if c \<in> set cs then cs else cs @ [c]))\<rparr>)"

definition removeConnection :: "World \<Rightarrow> string \<Rightarrow> conn \<Rightarrow> World" where
  "removeConnection w gid c =
     (case gameConnections w gid of
        None \<Rightarrow> w
      | Some cs \<Rightarrow> w\<lparr>gameConnections := (gameConnections w)(gid \<mapsto> filter (\<lambda>k. k \<noteq> c) cs)\<rparr>)"

text \<open>\<open>broadcastGameState\<close>: \<open>forEach\<close> visits every channel of the set in insertion order;
  a write that throws is caught and its channel deleted from the set.\<close>

definition broadcastGameState :: "Env \<Rightarrow> World \<Rightarrow> string \<Rightarrow> GameState \<Rightarrow> World" where
  "broadcastGameState e w gid g =
     (case gameConnections w gid of
        None \<Rightarrow> w
      | Some cs \<Rightarrow>
          w\<lparr>sendCalls := sendCalls w @ map (\<lambda>c. (c, g)) cs,
            gameConnections := (gameConnections w)(gid \<mapsto> filter (send_ok e) cs)\<rparr>)"

section \<open>Session registry\<close>

definition createPvPGame ::
  "Env \<Rightarrow> World \<Rightarrow> string \<Rightarrow> string \<Rightarrow> bool \<Rightarrow> int \<Rightarrow> (GameError + GameState) \<times> World" where
  "createPvPGame e w createdBy uname priv maxP =
     (let gid = ''game-'' @ freshId e;
          code = (if priv then Some (freshCode e) else None)
      in case db_createGame e w gid createdBy code priv maxP False None of
           None \<Rightarrow> (Inl DbFailure, w)
         | Some w1 \<Rightarrow>
            (case db_addPlayerToGame e w1 gid createdBy False of
               None \<Rightarrow> (Inl DbFailure, w1)
             | Some w2 \<Rightarrow>
                (let g = \<lparr>gameId = gid,
                          players = [\<lparr>userId = createdBy, username = uname, paddleY = 0.5,
                                      score = 0, isAi = False, side = Left\<rparr>],
                          ball = initializeBall (rndDir e) (rndSpin e),
                          status = Waiting, isPrivate = priv, maxPlayers = maxP,
                          roomCode = code, isAiGame = False, difficulty = None,
                          lastUpdate = now e, winningScore = 11, gameStartTime = None\<rparr>
                 in (Inr g, w2\<lparr>games := (games w2)(gid \<mapsto> g),
                               gameConnections := (gameConnections w2)(gid \<mapsto> [])\<rparr>))))"

text \<open>\<open>createAIGame\<close>: the difficulty is one of the four tiers, as the route's schema
  requires.\<close>

definition createAIGame ::
  "Env \<Rightarrow> World \<Rightarrow> string \<Rightarrow> string \<Rightarrow> Tier \<Rightarrow> (GameError + GameState) \<times> World" where
  "createAIGame e w uid uname t =
     (let gid = ''ai-game-'' @ freshId e
      in case db_createGame e w gid uid None False 2 True (Some (tierName t)) of
           None \<Rightarrow> (Inl DbFailure, w)
         | Some w1 \<Rightarrow>
            (case db_addPlayerToGame e w1 gid uid False of
               None \<Rightarrow> (Inl DbFailure, w1)
             | Some w2 \<Rightarrow>
                (case db_addPlayerToGame e w2 gid ''ai'' True of
                   None \<Rightarrow> (Inl DbFailure, w2)
                 | Some w3 \<Rightarrow>
                    (let g = \<lparr>gameId = gid,
                              players = [\<lparr>userId = uid, username = uname, paddleY = 0.5,
                                          score = 0, isAi = False, side = Left\<rparr>,
                                         \<lparr>userId = ''ai'', username = ''AI'', paddleY = 0.5,
                                          score = 0, isAi = True, side = Right\<rparr>],
                              ball = initializeBall (rndDir e) (rndSpin e),
                              status = Active, isPrivate = False, maxPlayers = 2,
                              roomCode = None, isAiGame = True,
                              difficulty = Some (tierName t),
                              lastUpdate = now e, winningScore = 11,
                              gameStartTime = Some (now e)\<rparr>
                     in (Inr g, w3\<lparr>aiOpponents := (aiOpponents w3)(gid \<mapsto> createAIOpponent t),
                                   games := (games w3)(gid \<mapsto> g),
                                   gameConnections := (gameConnections w3)(gid \<mapsto> [])\<rparr>)))))"

text \<open>The session rebuilt from the tables when the registry has none (in \<open>joinGame\<close> and in
  \<open>getGameState\<close>): the first row of the answer is on the left, every other row on the right.\<close>

definition rowPlayer :: "Side \<Rightarrow> DbGamePlayer \<times> string option \<Rightarrow> GamePlayer" where
  "rowPlayer sd r =
     \<lparr>userId = user_id (fst r),
      username = (case snd r of None \<Rightarrow> ''AI'' | Some n \<Rightarrow> if n = [] then ''AI'' else n),
      paddleY = 0.5, score = db_score (fst r), isAi = is_ai (fst r), side = sd\<rparr>"

definition reconstruct ::
  "Env \<Rightarrow> string \<Rightarrow> DbGame \<Rightarrow> (DbGamePlayer \<times> string option) list \<Rightarrow> GameState" where
  "reconstruct e gid game rows =
     \<lparr>gameId = gid,
      players = (case rows of [] \<Rightarrow> [] | r # rs \<Rightarrow> rowPlayer Left r # map (rowPlayer Right) rs),
      ball = initializeBall (rndDir e) (rndSpin e),
      status = db_status game, isPrivate = is_private game, maxPlayers = max_players game,
      roomCode = room_code game, isAiGame = is_ai_game game, difficulty = db_difficulty game,
      lastUpdate = now e, winningScore = 11, gameStartTime = None\<rparr>"

text \<open>\<open>roomCode !== game.room_code\<close>: an absent argument differs from every column value.\<close>

definition codeMismatch :: "string option \<Rightarrow> string option \<Rightarrow> bool" where
  "codeMismatch rc col = (case (rc, col) of (Some a, Some b) \<Rightarrow> a \<noteq> b | _ \<Rightarrow> True)"

text \<open>The part of \<open>joinGame\<close> after the session object is at hand.\<close>

definition addJoiner ::
  "Env \<Rightarrow> World \<Rightarrow> string \<Rightarrow> GameState \<Rightarrow> string \<Rightarrow> string \<Rightarrow> (GameError + GameState) \<times> World" where
  "addJoiner e w gid g uid uname =
     (let newPlayerSide = (if length (players g) = 1 then Right else Left);
          g1 = g\<lparr>players := players g @
                  [\<lparr>userId = uid, username = uname, paddleY = 0.5, score = 0,
                    isAi = False, side = newPlayerSide\<rparr>]\<rparr>
      in if int (length (players g1)) = maxPlayers g1 then
           (let g2 = g1\<lparr>status := Active, gameStartTime := Some (now e)\<rparr>;
                w1 = w\<lparr>games := (games w)(gid \<mapsto> g2)\<rparr>
            in case db_updateGameStatus e w1 gid Active of
                 None \<Rightarrow> (Inl DbFailure, w1)
               | Some w2 \<Rightarrow>
                  (let g3 = g2\<lparr>lastUpdate := now e\<rparr>
                   in (Inr g3, broadcastGameState e (w2\<lparr>games := (games w2)(gid \<mapsto> g3)\<rparr>) gid g3)))
         else
           (let g3 = g1\<lparr>lastUpdate := now e\<rparr>
            in (Inr g3, broadcastGameState e (w\<lparr>games := (games w)(gid \<mapsto> g3)\<rparr>) gid g3)))"

definition joinGame ::
  "Env \<Rightarrow> World \<Rightarrow> string \<Rightarrow> string \<Rightarrow> string \<Rightarrow> string option
     \<Rightarrow> (GameError + GameState) \<times> World" where
  "joinGame e w gid uid uname rc =
     (case db_findGameById e w gid of
        None \<Rightarrow> (Inl DbFailure, w)
      | Some None \<Rightarrow> (Inl GameNotFound, w)
      | Some (Some game) \<Rightarrow>
          if is_private game \<and> codeMismatch rc (room_code game) then (Inl InvalidRoomCode, w)
          else
           (case db_getGamePlayerCount e w gid of
              None \<Rightarrow> (Inl DbFailure, w)
            | Some playerCount \<Rightarrow>
                if playerCount \<ge> max_players game then (Inl GameIsFull, w)
                else
                 (case db_isUserInGame e w gid uid of
                    None \<Rightarrow> (Inl DbFailure, w)
                  | Some True \<Rightarrow> (Inl UserAlreadyInGame, w)
                  | Some False \<Rightarrow>
                     (case db_addPlayerToGame e w gid uid False of
                        None \<Rightarrow> (Inl DbFailure, w)
                      | Some w1 \<Rightarrow>
                         (case games w1 gid of
                            Some g \<Rightarrow> addJoiner e w1 gid g uid uname
                          | None \<Rightarrow>
                             (case db_getGamePlayers e w1 gid of
                                None \<Rightarrow> (Inl DbFailure, w1)
                              | Some rows \<Rightarrow>
                                 (let g = reconstruct e gid game rows
                                  in addJoiner e (w1\<lparr>games := (games w1)(gid \<mapsto> g)\<rparr>)
                                       gid g uid uname)))))))"

definition getGameState :: "Env \<Rightarrow> World \<Rightarrow> string \<Rightarrow> (GameError + GameState option) \<times> World" where
  "getGameState e w gid =
     (case games w gid of
        Some g \<Rightarrow> (Inr (Some g), w)
      | None \<Rightarrow>
         (case db_findGameById e w gid of
            None \<Rightarrow> (Inl DbFailure, w)
          | Some None \<Rightarrow> (Inr None, w)
          | Some (Some game) \<Rightarrow>
             (case db_getGamePlayers e w gid of
                None \<Rightarrow> (Inl DbFailure, w)
              | Some rows \<Rightarrow>
                 (let g = reconstruct e gid game rows
                  in (Inr (Some g), w\<lparr>games := (games w)(gid \<mapsto> g)\<rparr>)))))"

section \<open>Move events\<close>

definition calculateAIMove :: "World \<Rightarrow> string \<Rightarrow> Ball \<Rightarrow> real \<Rightarrow> real" where
  "calculateAIMove w gid b r =
     (case aiOpponents w gid of None \<Rightarrow> 0.5 | Some aiConfig \<Rightarrow> aiMoveWith aiConfig b r)"

text \<open>The loop that writes every score of the roster to storage; it stops at the first
  rejected call. The flag tells whether every call resolved.\<close>

fun persistScores :: "Env \<Rightarrow> World \<Rightarrow> string \<Rightarrow> GamePlayer list \<Rightarrow> bool \<times> World" where
  "persistScores e w gid [] = (True, w)"
| "persistScores e w gid (p # ps) =
     (case db_updatePlayerScore e w gid (userId p) (score p) of
        None \<Rightarrow> (False, w)
      | Some w1 \<Rightarrow> persistScores e w1 gid ps)"

text \<open>\<open>handlePlayerMove\<close> from the physics step to the broadcast.\<close>

definition stepAndBroadcast ::
  "Env \<Rightarrow> World \<Rightarrow> string \<Rightarrow> GameState \<Rightarrow> (GameError + unit) \<times> World" where
  "stepAndBroadcast e w gid g =
     (let g1 = updateBallPhysics (rndServe e) g;
          w1 = w\<lparr>games := (games w)(gid \<mapsto> g1)\<rparr>
      in case persistScores e w1 gid (players g1) of
           (False, w2) \<Rightarrow> (Inl DbFailure, w2)
         | (True, w2) \<Rightarrow>
            (let g2 = g1\<lparr>lastUpdate := now e\<rparr>
             in (Inr (), broadcastGameState e (w2\<lparr>games := (games w2)(gid \<mapsto> g2)\<rparr>) gid g2)))"

text \<open>The two writes of \<open>handlePlayerMove\<close> to paddle positions: the mover's, clamped, and
  the synthetic opponent's.\<close>

definition movePaddle :: "GameState \<Rightarrow> string \<Rightarrow> real \<Rightarrow> GameState" where
  "movePaddle g uid pY =
     g\<lparr>players := update_first (\<lambda>p. userId p = uid)
                     (\<lambda>p. p\<lparr>paddleY := max 0.1 (min 0.9 pY)\<rparr>) (players g)\<rparr>"

definition aiPaddle :: "GameState \<Rightarrow> real \<Rightarrow> GameState" where
  "aiPaddle g aiMove = g\<lparr>players := update_first isAi (\<lambda>p. p\<lparr>paddleY := aiMove\<rparr>) (players g)\<rparr>"

text \<open>\<open>handlePlayerMove\<close> from the response of the synthetic opponent on.\<close>

definition aiResponse ::
  "Env \<Rightarrow> World \<Rightarrow> string \<Rightarrow> GameState \<Rightarrow> (GameError + unit) \<times> World" where
  "aiResponse e w gid g =
     (if isAiGame g then
        (case find isAi (players g) of
           Some aiPlayer \<Rightarrow>
             (let aiMove = calculateAIMove w gid (ball g) (rndError e);
                  g1 = aiPaddle g aiMove;
                  w1 = w\<lparr>games := (games w)(gid \<mapsto> g1)\<rparr>
              in case db_recordGameMove e w1 gid ''ai'' aiMove (now e) of
                   None \<Rightarrow> (Inl DbFailure, w1)
                 | Some w2 \<Rightarrow> stepAndBroadcast e w2 gid g1)
         | None \<Rightarrow> stepAndBroadcast e w gid g)
      else stepAndBroadcast e w gid g)"

definition handlePlayerMove ::
  "Env \<Rightarrow> World \<Rightarrow> string \<Rightarrow> string \<Rightarrow> real \<Rightarrow> int option \<Rightarrow> (GameError + unit) \<times> World" where
  "handlePlayerMove e w gid uid pY timestamp =
     (case games w gid of
        None \<Rightarrow> (Inl GameNotFound, w)
      | Some g \<Rightarrow>
         (case db_isUserInGame e w gid uid of
            None \<Rightarrow> (Inl DbFailure, w)
          | Some False \<Rightarrow> (Inl UserNotInGame, w)
          | Some True \<Rightarrow>
             if status g \<noteq> Active then (Inl GameNotActive, w)
             else
              (let moveTimestamp =
                     (case timestamp of None \<Rightarrow> now e | Some t \<Rightarrow> if t = 0 then now e else t);
                   g1 = movePaddle g uid pY;
                   w1 = w\<lparr>games := (games w)(gid \<mapsto> g1)\<rparr>
               in case db_recordGameMove e w1 gid uid pY moveTimestamp of
                    None \<Rightarrow> (Inl DbFailure, w1)
                  | Some w2 \<Rightarrow> aiResponse e w2 gid g1)))"

section \<open>Leaving and score messages\<close>

definition endsGame :: "GameState \<Rightarrow> bool" where
  "endsGame g =
     (players g = [] \<or> (isAiGame g \<and> (case players g of [p] \<Rightarrow> isAi p | _ \<Rightarrow> False)))"

definition leaveGame :: "Env \<Rightarrow> World \<Rightarrow> string \<Rightarrow> string \<Rightarrow> (GameError + unit) \<times> World" where
  "leaveGame e w gid uid =
     (case games w gid of
        None \<Rightarrow> (Inl GameNotFound, w)
      | Some g \<Rightarrow>
         (case db_removePlayerFromGame e w gid uid of
            None \<Rightarrow> (Inl DbFailure, w)
          | Some w1 \<Rightarrow>
             (let g1 = g\<lparr>players := filter (\<lambda>p. userId p \<noteq> uid) (players g)\<rparr>
              in if endsGame g1 then
                   (let g2 = g1\<lparr>status := Finished\<rparr>;
                        w2 = w1\<lparr>games := (games w1)(gid \<mapsto> g2)\<rparr>
                    in case db_updateGameStatus e w2 gid Finished of
                         None \<Rightarrow> (Inl DbFailure, w2)
                       | Some w3 \<Rightarrow>
                           (Inr (), w3\<lparr>games := (games w3)(gid := None),
                                       gameConnections := (gameConnections w3)(gid := None),
                                       aiOpponents := (aiOpponents w3)(gid := None)\<rparr>))
                 else
                   (let g2 = g1\<lparr>lastUpdate := now e\<rparr>
                    in (Inr (), broadcastGameState e (w1\<lparr>games := (games w1)(gid \<mapsto> g2)\<rparr>) gid g2)))))"

definition updateScore :: "Env \<Rightarrow> World \<Rightarrow> string \<Rightarrow> string \<Rightarrow> int \<Rightarrow> (GameError + unit) \<times> World" where
  "updateScore e w gid uid sc =
     (case games w gid of
        None \<Rightarrow> (Inl GameNotFound, w)
      | Some g \<Rightarrow>
         (case find (\<lambda>p. userId p = uid) (players g) of
            Some player \<Rightarrow>
              (let g1 = g\<lparr>players := update_first (\<lambda>p. userId p = uid)
                                       (\<lambda>p. p\<lparr>score := sc\<rparr>) (players g)\<rparr>;
                   w1 = w\<lparr>games := (games w)(gid \<mapsto> g1)\<rparr>
               in case db_updatePlayerScore e w1 gid uid sc of
                    None \<Rightarrow> (Inl DbFailure, w1)
                  | Some w2 \<Rightarrow>
                     (let g2 = g1\<lparr>lastUpdate := now e\<rparr>
                      in (Inr (), broadcastGameState e (w2\<lparr>games := (games w2)(gid \<mapsto> g2)\<rparr>) gid g2)))
          | None \<Rightarrow>
              (let g2 = g\<lparr>lastUpdate := now e\<rparr>
               in (Inr (), broadcastGameState e (w\<lparr>games := (games w)(gid \<mapsto> g2)\<rparr>) gid g2))))"

section \<open>Derived notions used in the statements\<close>

text \<open>The channels attached to a session, in the order of their insertion.\<close>

definition channels :: "World \<Rightarrow> string \<Rightarrow> conn list" where
  "channels w gid = (case gameConnections w gid of None \<Rightarrow> [] | Some cs \<Rightarrow> cs)"

text \<open>The primary keys of the rows of \<open>game_players\<close>.\<close>

definition rowKeys :: "World \<Rightarrow> (string \<times> string) list" where
  "rowKeys w = map (\<lambda>r. (game_id r, user_id r)) (tbl_game_players w)"

text \<open>The session a move leaves in the registry when no storage call is rejected: paddle
  write, response of the synthetic opponent if there is one, physics step, time stamp.\<close>

definition afterMove :: "Env \<Rightarrow> World \<Rightarrow> string \<Rightarrow> GameState \<Rightarrow> string \<Rightarrow> real \<Rightarrow> GameState" where
  "afterMove e w gid g uid pY =
     (let g1 = movePaddle g uid pY;
          g2 = (if isAiGame g1 \<and> find isAi (players g1) \<noteq> None
                then aiPaddle g1 (calculateAIMove w gid (ball g1) (rndError e))
                else g1)
      in (updateBallPhysics (rndServe e) g2)\<lparr>lastUpdate := now e\<rparr>)"

text \<open>How a participant may differ after a move event: same identity and side, a score
  that is not lower, a paddle that is unchanged or inside [0.1, 0.9].\<close>

definition evolves :: "GamePlayer \<Rightarrow> GamePlayer \<Rightarrow> bool" where
  "evolves p q =
     (userId q = userId p \<and> side q = side p \<and> isAi q = isAi p \<and> score p \<le> score q
      \<and> (paddleY q = paddleY p \<or> (0.1 \<le> paddleY q \<and> paddleY q \<le> 0.9)))"

text \<open>How a participant may differ once the paddle of a move is written: same identity,
  same kind, and the same paddle, unless the session is played against the synthetic
  opponent (\<open>ai\<close>) and the participant is synthetic.\<close>

definition sameSeat :: "bool \<Rightarrow> GamePlayer \<Rightarrow> GamePlayer \<Rightarrow> bool" where
  "sameSeat ai p q =
     (userId q = userId p \<and> isAi q = isAi p \<and> (paddleY q = paddleY p \<or> (ai \<and> isAi p)))"


text \<open>What a physics step does, read off the session it starts from: whether the
  integrated ball is at or beyond a wall, the height at which the ball meets the paddle
  planes, the participant whose paddle it hits, and whether a point is scored.\<close>

definition crossesWall :: "GameState \<Rightarrow> bool" where
  "crossesWall g = (y (integrate (ball g)) \<le> 0 \<or> y (integrate (ball g)) \<ge> 1)"

definition wallY :: "GameState \<Rightarrow> real" where
  "wallY g = max 0 (min 1 (y (integrate (ball g))))"

definition hitRight :: "GameState \<Rightarrow> GamePlayer option" where
  "hitRight g =
     (case find (onSide Right) (players g) of
        None \<Rightarrow> None
      | Some q \<Rightarrow>
          if x (integrate (ball g)) \<ge> 0.95 \<and> velocityX (ball g) > 0
             \<and> paddleY q - 0.1 \<le> wallY g \<and> wallY g \<le> paddleY q + 0.1
          then Some q else None)"

definition hitBy :: "GameState \<Rightarrow> GamePlayer option" where
  "hitBy g =
     (case find (onSide Left) (players g) of
        None \<Rightarrow> hitRight g
      | Some p \<Rightarrow>
          if x (integrate (ball g)) \<le> 0.05 \<and> velocityX (ball g) < 0
             \<and> paddleY p - 0.1 \<le> wallY g \<and> wallY g \<le> paddleY p + 0.1
          then Some p else hitRight g)"

definition pointScored :: "GameState \<Rightarrow> bool" where
  "pointScored g =
     (hitBy g = None
      \<and> (x (integrate (ball g)) < 0 \<and> find (onSide Right) (players g) \<noteq> None
         \<or> x (integrate (ball g)) > 1 \<and> find (onSide Left) (players g) \<noteq> None))"

definition allDbOk :: "Env \<Rightarrow> bool" where
  "allDbOk e = (db_ok e = (\<lambda>_. True))"

section \<open>Histories of two-seat sessions\<close>

text \<open>The registry operations without \<open>leaveGame\<close>, a creation being one with the default
  of two seats; a history is a list of operations, each with the environment it ran in.\<close>

datatype Op =
    Create string string bool
  | CreateAI string string Tier
  | Join string string string "string option"

fun applyOp :: "Env \<Rightarrow> World \<Rightarrow> Op \<Rightarrow> World" where
  "applyOp e w (Create uid uname priv) = snd (createPvPGame e w uid uname priv 2)"
| "applyOp e w (CreateAI uid uname t) = snd (createAIGame e w uid uname t)"
| "applyOp e w (Join gid uid uname rc) = snd (joinGame e w gid uid uname rc)"

fun run :: "World \<Rightarrow> (Env \<times> Op) list \<Rightarrow> World" where
  "run w [] = w"
| "run w (step # rest) = run (applyOp (fst step) w (snd step)) rest"

text \<open>The number of stored participants of a session, and what holds of every session
  identifier along such a history: registry, table row and stored participants fit
  together in one of a few shapes.\<close>

definition seats :: "World \<Rightarrow> string \<Rightarrow> nat" where
  "seats w k = length (playerRows w k)"

definition slotShape :: "GameState option \<Rightarrow> DbGame option \<Rightarrow> nat \<Rightarrow> bool" where
  "slotShape mem tbl n =
     (case mem of
        None \<Rightarrow>
          (case tbl of
             None \<Rightarrow> n = 0
           | Some row \<Rightarrow> max_players row = 2 \<and> db_status row = Waiting \<and> n = 1)
      | Some g \<Rightarrow>
          (case tbl of
             None \<Rightarrow> False
           | Some row \<Rightarrow>
               max_players row = 2 \<and> maxPlayers g = 2
               \<and> (status g = Waiting \<and> map side (players g) = [Left] \<and> n = 1
                  \<or> status g = Active \<and> map side (players g) = [Left, Right] \<and> n = 2
                  \<or> status g = Waiting \<and> length (players g) = 3 \<and> n = 2)))"

definition slotOk :: "World \<Rightarrow> string \<Rightarrow> bool" where
  "slotOk w k = slotShape (games w k) (map_of (tbl_games w) k) (seats w k)"


section \<open>Events of one session\<close>



section \<open>Concrete sessions\<close>

text \<open>Inputs on which the theorems below are instantiated.\<close>

definition calmEnv :: Env where
  "calmEnv = \<lparr>db_ok = (\<lambda>_. True), send_ok = (\<lambda>_. True), now = 1000, freshId = ''a1'',
              freshCode = ''ABC123'', rndDir = 0, rndSpin = 0.5, rndError = 0.5,
              rndServe = 0.5\<rparr>"

definition emptyWorld :: World where
  "emptyWorld = \<lparr>games = Map.empty, gameConnections = Map.empty, aiOpponents = Map.empty,
                 tbl_games = [], tbl_game_players = [], tbl_users = Map.empty,
                 tbl_game_moves = [], sendCalls = []\<rparr>"

definition human :: "string \<Rightarrow> Side \<Rightarrow> GamePlayer" where
  "human uid sd = \<lparr>userId = uid, username = uid, paddleY = 0.5, score = 0, isAi = False,
                   side = sd\<rparr>"

definition duel :: "GamePlayer list \<Rightarrow> Ball \<Rightarrow> GameState" where
  "duel ps b = \<lparr>gameId = ''game-a1'', players = ps, ball = b, status = Active,
                isPrivate = False, maxPlayers = 2, roomCode = None, isAiGame = False,
                difficulty = None, lastUpdate = 1000, winningScore = 11,
                gameStartTime = Some 1000\<rparr>"

text \<open>A ball that is about to cross the lower wall in mid field.\<close>

definition wallBall :: Ball where
  "wallBall = \<lparr>x = 0.5, y = 0.995, velocityX = 0.6, velocityY = 0.6, speed = 1\<rparr>"

text \<open>A ball that is about to leave the table on the left, away from a centred paddle.\<close>

definition exitBall :: Ball where
  "exitBall = \<lparr>x = 0.005, y = 0.9, velocityX = - 0.6, velocityY = 0, speed = 1\<rparr>"

text \<open>The ball of a serve to the left without spin, and a running two-participant session
  with three channels attached.\<close>

definition serveBall :: Ball where
  "serveBall = \<lparr>x = 0.5, y = 0.5, velocityX = - 0.6, velocityY = 0, speed = 1\<rparr>"

definition arena :: World where
  "arena = \<lparr>games = [''game-a1'' \<mapsto> duel [human ''A'' Left, human ''B'' Right] serveBall],
            gameConnections = [''game-a1'' \<mapsto> [1, 2, 3]],
            aiOpponents = Map.empty,
            tbl_games = [(''game-a1'', \<lparr>room_code = None, created_by = ''A'', is_private = False,
                           max_players = 2, db_status = Active, db_difficulty = None,
                           is_ai_game = False\<rparr>)],
            tbl_game_players = [\<lparr>game_id = ''game-a1'', user_id = ''A'', is_ai = False, db_score = 0\<rparr>,
                                \<lparr>game_id = ''game-a1'', user_id = ''B'', is_ai = False, db_score = 0\<rparr>],
            tbl_users = Map.empty, tbl_game_moves = [], sendCalls = []\<rparr>"

text \<open>An environment in which storage rejects the record of a move of participant A.\<close>

definition moveLogDown :: Env where
  "moveLogDown = calmEnv\<lparr>db_ok := (\<lambda>c. c \<noteq> RecordGameMove ''A'')\<rparr>"

text \<open>Worlds reached from the empty one: a fresh public session of A; a fresh session
  against the synthetic opponent of tier easy; a private session with both seats taken.\<close>

definition soloWorld :: World where
  "soloWorld = snd (createPvPGame calmEnv emptyWorld ''A'' ''A'' False 2)"

definition aiWorld :: World where
  "aiWorld = snd (createAIGame calmEnv emptyWorld ''u1'' ''u1'' Easy)"

definition privateWorld :: World where
  "privateWorld =
     snd (joinGame calmEnv (snd (createPvPGame calmEnv emptyWorld ''A'' ''A'' True 2))
            ''game-a1'' ''B'' ''B'' (Some ''ABC123''))"

text \<open>Two moves of the human against the synthetic opponent; the noise of the opponent's
  aim is high in the first and low in the second.\<close>

definition aiWorld1 :: World where
  "aiWorld1 = snd (handlePlayerMove (calmEnv\<lparr>rndError := 0.9\<rparr>) aiWorld ''ai-game-a1'' ''u1'' 0.5 None)"

definition aiWorld2 :: World where
  "aiWorld2 = snd (handlePlayerMove (calmEnv\<lparr>rndError := 0.1\<rparr>) aiWorld1 ''ai-game-a1'' ''u1'' 0.5 None)"



text \<open>A session created with three seats, once all three are taken.\<close>

definition crowdWorld :: World where
  "crowdWorld =
     snd (joinGame calmEnv
            (snd (joinGame calmEnv (snd (createPvPGame calmEnv emptyWorld ''A'' ''A'' False 3))
                    ''game-a1'' ''B'' ''B'' None))
            ''game-a1'' ''C'' ''C'' None)"

text \<open>A participant alone on the Left with the paddle at 0.9, a ball that drifts to the left
  at mid height, and a run of physics steps as successive move events apply them. Also a
  ball that is about to leave the table on the right.\<close>

definition loneA :: GamePlayer where
  "loneA = (human ''A'' Left)\<lparr>paddleY := 0.9\<rparr>"

definition drift :: "real \<Rightarrow> Ball" where
  "drift xx = \<lparr>x = xx, y = 0.5, velocityX = - 0.6, velocityY = 0, speed = 1\<rparr>"

fun steps :: "nat \<Rightarrow> GameState \<Rightarrow> GameState" where
  "steps 0 g = g"
| "steps (Suc n) g = steps n (updateBallPhysics 0.5 g)"

definition exitBallRight :: Ball where
  "exitBallRight = \<lparr>x = 0.995, y = 0.9, velocityX = 0.6, velocityY = 0, speed = 1\<rparr>"

text \<open>A ball that crosses the upper wall just in front of a left paddle held at 0.1; a
  participant on the Right whose score is \<open>2^53\<close>; and the world in which A has created a
  two-seat session and left it, and B has joined it afterwards.\<close>

definition cornerBall :: Ball where
  "cornerBall = \<lparr>x = 0.055, y = 0.001, velocityX = - 0.6, velocityY = - 0.1, speed = 1\<rparr>"

definition lowA :: GamePlayer where
  "lowA = (human ''A'' Left)\<lparr>paddleY := 0.1\<rparr>"

definition richB :: GamePlayer where
  "richB = (human ''B'' Right)\<lparr>score := 2 ^ 53\<rparr>"

definition rebuiltWorld :: World where
  "rebuiltWorld =
     snd (joinGame calmEnv (snd (leaveGame calmEnv soloWorld ''game-a1'' ''A''))
            ''game-a1'' ''B'' ''B'' None)"

section \<open>Facts about rosters\<close>

lemma length_update_first [simp]: "length (update_first P f ps) = length ps"
  by (induction ps) auto

lemma find_update_first_same:
  "find P ps = Some p \<Longrightarrow> (\<And>q. P q \<Longrightarrow> P (f q)) \<Longrightarrow>
   find P (update_first P f ps) = Some (f p)"
  by (induction ps) (auto split: if_splits)

lemma filter_update_first_other:
  "(\<And>q. P q \<Longrightarrow> \<not> Q q \<and> \<not> Q (f q)) \<Longrightarrow> filter Q (update_first P f ps) = filter Q ps"
  by (induction ps) auto

lemma onSide_addPoint [simp]: "onSide sd (addPoint p) = onSide sd p"
  by (simp add: onSide_def addPoint_def)

lemma update_first_at:
  "find P ps = Some p \<Longrightarrow> f p = h p \<Longrightarrow> update_first P f ps = update_first P h ps"
  by (induction ps) (auto split: if_splits)

lemma jsSucc_exact: "- (2 ^ 53) \<le> n \<Longrightarrow> n < 2 ^ 53 \<Longrightarrow> jsSucc n = n + 1"
  by (simp add: jsSucc_def)

lemma jsSucc_ge: "n \<le> jsSucc n"
  by (simp add: jsSucc_def)

lemma find_addPoint:
  "find (onSide sd) ps = Some p \<Longrightarrow>
   find (onSide sd) (update_first (onSide sd) addPoint ps) = Some (addPoint p)"
  using find_update_first_same [of "onSide sd" ps p addPoint]
  by (simp add: onSide_def addPoint_def)

lemma addPoint_exact:
  "- (2 ^ 53) \<le> score p \<Longrightarrow> score p < 2 ^ 53 \<Longrightarrow> addPoint p = p\<lparr>score := score p + 1\<rparr>"
  by (simp add: addPoint_def jsSucc_exact)

lemma other_side_kept:
  "sd \<noteq> sd' \<Longrightarrow>
   filter (onSide sd') (update_first (onSide sd) addPoint ps) = filter (onSide sd') ps"
  by (rule filter_update_first_other) (auto simp: onSide_def addPoint_def)

lemma duel_sel [simp]: "players (duel ps b) = ps" "ball (duel ps b) = b"
  by (simp_all add: duel_def)

section \<open>The physics step\<close>

lemma checkGameEnd_ball [simp]: "ball (checkGameEnd g) = ball g"
  by (simp add: checkGameEnd_def)

lemma checkGameEnd_players [simp]: "players (checkGameEnd g) = players g"
  by (simp add: checkGameEnd_def)

lemma leftPaddle_y [simp]: "y (leftPaddle lp b) = y b"
  by (simp add: leftPaddle_def split: option.splits)

lemma rightPaddle_y [simp]: "y (rightPaddle rp b) = y b"
  by (simp add: rightPaddle_def split: option.splits)

lemma bounceWalls_y: "0 \<le> y (bounceWalls b) \<and> y (bounceWalls b) \<le> 1"
  by (simp add: bounceWalls_def)

lemma bounceWalls_x [simp]: "x (bounceWalls b) = x b"
  by (simp add: bounceWalls_def)

lemma bounceWalls_flip:
  "velocityY (bounceWalls b) = (if y b \<le> 0 \<or> y b \<ge> 1 then - velocityY b else velocityY b)"
  by (simp add: bounceWalls_def)

lemma integrate_velocityY [simp]: "velocityY (integrate b) = velocityY b"
  by (simp add: integrate_def)

lemma moveBall_y: "0 \<le> y (moveBall g) \<and> y (moveBall g) \<le> 1"
  by (simp add: moveBall_def bounceWalls_y)

lemma checkScoring_y:
  "0 \<le> y (ball g) \<and> y (ball g) \<le> 1 \<Longrightarrow>
   0 \<le> y (ball (checkScoring r g)) \<and> y (ball (checkScoring r g)) \<le> 1"
  by (simp add: checkScoring_def resetBall_def split: option.splits)

lemma updateBallPhysics_y:
  "0 \<le> y (ball (updateBallPhysics r g)) \<and> y (ball (updateBallPhysics r g)) \<le> 1"
  unfolding updateBallPhysics_def using checkScoring_y [of "g\<lparr>ball := moveBall g\<rparr>" r]
  by (simp add: moveBall_y)

text \<open>In mid field no paddle is in reach and nobody scores: the step is integration and
  wall bounce only.\<close>

lemma free_flight:
  assumes "0.05 < x (integrate (ball g))" and "x (integrate (ball g)) < 0.95"
  shows "ball (updateBallPhysics r g) = bounceWalls (integrate (ball g))"
proof -
  let ?b = "bounceWalls (integrate (ball g))"
  have mb: "moveBall g = ?b"
    using assms by (simp add: moveBall_def leftPaddle_def rightPaddle_def split: option.splits)
  have "checkScoring r (g\<lparr>ball := ?b\<rparr>) = g\<lparr>ball := ?b\<rparr>"
    using assms by (simp add: checkScoring_def)
  then show ?thesis
    by (simp add: updateBallPhysics_def mb)
qed

text \<open>The vertical velocity at the end of a step, in terms of the session the step starts
  from.\<close>

lemma bounceWalls_wallY: "y (bounceWalls (integrate (ball g))) = wallY g"
  by (simp add: bounceWalls_def wallY_def)

lemma bounceWalls_velocityX [simp]: "velocityX (bounceWalls b) = velocityX b"
  by (simp add: bounceWalls_def)

lemma integrate_velocityX [simp]: "velocityX (integrate b) = velocityX b"
  by (simp add: integrate_def)

lemma bounceWalls_crosses:
  "velocityY (bounceWalls (integrate (ball g)))
     = (if crossesWall g then - velocityY (ball g) else velocityY (ball g))"
  by (simp add: bounceWalls_flip crossesWall_def)

lemma moveBall_miss:
  assumes "hitBy g = None"
  shows "moveBall g = bounceWalls (integrate (ball g))"
  using assms
  by (auto simp: moveBall_def hitBy_def hitRight_def leftPaddle_def rightPaddle_def
      bounceWalls_wallY split: option.splits if_splits)

lemma moveBall_hit:
  assumes "hitBy g = Some p"
  shows "velocityY (moveBall g)
           = velocityY (bounceWalls (integrate (ball g))) + (wallY g - paddleY p) * 2
         \<and> 0 \<le> x (moveBall g) \<and> x (moveBall g) \<le> 1"
  using assms
  by (auto simp: moveBall_def hitBy_def hitRight_def leftPaddle_def rightPaddle_def
      bounceWalls_wallY split: option.splits if_splits)

lemma step_ball:
  "ball (updateBallPhysics r g)
     = (if pointScored g
        then resetBall r (if x (integrate (ball g)) < 0 then Right else Left)
        else moveBall g)"
proof (cases "hitBy g")
  case None
  then show ?thesis
    by (auto simp: updateBallPhysics_def checkScoring_def moveBall_miss pointScored_def
        split: option.splits)
next
  case (Some p)
  with moveBall_hit [OF Some] show ?thesis
    by (simp add: updateBallPhysics_def checkScoring_def pointScored_def)
qed

lemma step_velocityY:
  "velocityY (ball (updateBallPhysics r g))
     = (if pointScored g then (r - 0.5) * 0.4
        else (if crossesWall g then - velocityY (ball g) else velocityY (ball g))
             + (case hitBy g of None \<Rightarrow> 0 | Some p \<Rightarrow> (wallY g - paddleY p) * 2))"
proof (cases "hitBy g")
  case None
  then show ?thesis
    by (simp add: step_ball moveBall_miss bounceWalls_crosses resetBall_def)
next
  case (Some p)
  with moveBall_hit [OF Some] show ?thesis
    by (simp add: step_ball bounceWalls_crosses pointScored_def)
qed

text \<open>
  Claim C5, as stated, fails in its second half. A ball at height 0.001 that moves down
  and to the left, just in front of a left paddle held at 0.1, crosses the wall \<open>y = 0\<close>
  in the step: the wall bounce turns its vertical velocity from -0.1 into 0.1. In the
  same step the ball meets the paddle at height 0, below the paddle's centre, and the spin
  of the paddle, \<open>(0 - 0.1) * 2\<close>, is added. The step ends with the vertical velocity -0.1:
  the wall was crossed and the sign of the velocity is the one it had before. Nobody
  scored.
\<close>

theorem wall_crossing_beside_paddle_keeps_sign:
  "0 \<le> y (ball (duel [lowA, human ''B'' Right] cornerBall))
   \<and> y (ball (duel [lowA, human ''B'' Right] cornerBall)) \<le> 1
   \<and> y (integrate (ball (duel [lowA, human ''B'' Right] cornerBall))) < 0
   \<and> velocityY (ball (duel [lowA, human ''B'' Right] cornerBall)) = - 0.1
   \<and> velocityY (bounceWalls (integrate (ball (duel [lowA, human ''B'' Right] cornerBall)))) = 0.1
   \<and> velocityY (ball (updateBallPhysics 0.5 (duel [lowA, human ''B'' Right] cornerBall))) = - 0.1
   \<and> map score (players (updateBallPhysics 0.5 (duel [lowA, human ''B'' Right] cornerBall)))
       = [0, 0]"
  by code_simp

text \<open>
  Claim C5, amended. After every physics step the ball's y lies in [0, 1], whatever the
  session was before. The vertical velocity at the end of the step is determined as
  follows. If a point is scored in the step, the ball is reset and the velocity is that of
  the serve. Otherwise it is the velocity before the step, negated exactly once when the
  integrated y is at or beyond a wall (\<open>y \<le> 0\<close> or \<open>y \<ge> 1\<close>) and not negated when it is
  strictly between the walls, plus the spin \<open>(h - paddleY) * 2\<close> of the paddle the ball hits
  in the step, if it hits one, \<open>h\<close> being the ball's height after the wall bounce. So a step
  that crosses a wall, hits no paddle and scores no point ends with the vertical velocity
  negated.
\<close>

theorem ball_y_in_range_and_vy_after_step:
  "0 \<le> y (ball (updateBallPhysics r g)) \<and> y (ball (updateBallPhysics r g)) \<le> 1
   \<and> velocityY (ball (updateBallPhysics r g))
       = (if pointScored g then (r - 0.5) * 0.4
          else (if crossesWall g then - velocityY (ball g) else velocityY (ball g))
               + (case hitBy g of None \<Rightarrow> 0 | Some p \<Rightarrow> (wallY g - paddleY p) * 2))
   \<and> (crossesWall g \<and> \<not> pointScored g \<and> hitBy g = None \<longrightarrow>
        velocityY (ball (updateBallPhysics r g)) = - velocityY (ball g))"
  using updateBallPhysics_y [of r g] step_velocityY [of r g]
  by simp

theorem ball_y_in_range_and_vy_after_step_witness:
  "crossesWall (duel [human ''A'' Left, human ''B'' Right] wallBall)
   \<and> \<not> pointScored (duel [human ''A'' Left, human ''B'' Right] wallBall)
   \<and> hitBy (duel [human ''A'' Left, human ''B'' Right] wallBall) = None
   \<and> velocityY (ball (duel [human ''A'' Left, human ''B'' Right] wallBall)) = 0.6
   \<and> velocityY (ball (updateBallPhysics 0.5 (duel [human ''A'' Left, human ''B'' Right] wallBall)))
       = - 0.6
   \<and> 0 \<le> y (ball (updateBallPhysics 0.5 (duel [human ''A'' Left, human ''B'' Right] wallBall)))
   \<and> y (ball (updateBallPhysics 0.5 (duel [human ''A'' Left, human ''B'' Right] wallBall))) \<le> 1
   \<and> crossesWall (duel [lowA, human ''B'' Right] cornerBall)
   \<and> \<not> pointScored (duel [lowA, human ''B'' Right] cornerBall)
   \<and> hitBy (duel [lowA, human ''B'' Right] cornerBall) = Some lowA
   \<and> wallY (duel [lowA, human ''B'' Right] cornerBall) = 0
   \<and> velocityY (ball (updateBallPhysics 0.5 (duel [lowA, human ''B'' Right] cornerBall)))
       = 0.1 + (0 - 0.1) * 2
   \<and> pointScored (duel [human ''A'' Left, human ''B'' Right] exitBall)
   \<and> velocityY (ball (updateBallPhysics 0.5 (duel [human ''A'' Left, human ''B'' Right] exitBall)))
       = 0"
proof -
  let ?g = "duel [human ''A'' Left, human ''B'' Right] wallBall"
  let ?c = "duel [lowA, human ''B'' Right] cornerBall"
  let ?s = "duel [human ''A'' Left, human ''B'' Right] exitBall"
  have g: "crossesWall ?g" "\<not> pointScored ?g" "hitBy ?g = None"
    by code_simp+
  have c: "crossesWall ?c" "\<not> pointScored ?c" "hitBy ?c = Some lowA" "wallY ?c = 0"
    by code_simp+
  have s: "pointScored ?s"
    by code_simp
  have v: "velocityY (ball ?g) = 0.6" "velocityY (ball ?c) = - 0.1" "paddleY lowA = 0.1"
    by (simp_all add: wallBall_def cornerBall_def lowA_def)
  from ball_y_in_range_and_vy_after_step [of "0.5" ?g] g v
  have a1: "velocityY (ball (updateBallPhysics 0.5 ?g)) = - 0.6"
    and a2: "0 \<le> y (ball (updateBallPhysics 0.5 ?g))" "y (ball (updateBallPhysics 0.5 ?g)) \<le> 1"
    by simp_all
  from ball_y_in_range_and_vy_after_step [of "0.5" ?c] c v
  have a3: "velocityY (ball (updateBallPhysics 0.5 ?c)) = 0.1 + (0 - 0.1) * 2"
    by simp
  from ball_y_in_range_and_vy_after_step [of "0.5" ?s] s
  have a4: "velocityY (ball (updateBallPhysics 0.5 ?s)) = 0"
    by simp
  from g c s v a1 a2 a3 a4 show ?thesis
    by blast
qed

section \<open>Scoring\<close>

lemma scored_right:
  assumes "x (moveBall g) < 0" and "find (onSide Right) (players g) = Some p"
  shows "players (updateBallPhysics r g) = update_first (onSide Right) addPoint (players g)"
    and "ball (updateBallPhysics r g) = resetBall r Right"
  using assms by (simp_all add: updateBallPhysics_def checkScoring_def)

lemma scored_left:
  assumes "x (moveBall g) > 1" and "find (onSide Left) (players g) = Some p"
  shows "players (updateBallPhysics r g) = update_first (onSide Left) addPoint (players g)"
    and "ball (updateBallPhysics r g) = resetBall r Left"
  using assms by (simp_all add: updateBallPhysics_def checkScoring_def)

lemma lone_step:
  assumes "xx \<le> 1"
  shows "updateBallPhysics r (duel [loneA] (drift xx)) = duel [loneA] (drift (xx - 0.01))"
proof -
  let ?g = "duel [loneA] (drift xx)"
  let ?h = "?g\<lparr>ball := drift (xx - 0.01)\<rparr>"
  have m: "moveBall ?g = drift (xx - 0.01)"
    by (simp add: moveBall_def integrate_def bounceWalls_def leftPaddle_def rightPaddle_def
        onSide_def drift_def loneA_def human_def deltaTime_def)
  have f: "find (onSide Right) (players ?h) = None"
    "find (onSide Left) (players ?h) = Some loneA"
    by (simp_all add: onSide_def loneA_def human_def)
  have xb: "x (ball ?h) = xx - 0.01" by (simp add: drift_def)
  have cs: "checkScoring r ?h = ?h"
    using assms unfolding checkScoring_def f xb by simp
  have ce: "checkGameEnd ?h = ?h"
    unfolding checkGameEnd_def reached_def f by (simp add: loneA_def human_def duel_def)
  have "updateBallPhysics r ?g = ?h"
    unfolding updateBallPhysics_def m cs ce ..
  then show ?thesis by (simp add: duel_def)
qed

lemma lone_steps:
  "xx \<le> 1 \<Longrightarrow> steps n (duel [loneA] (drift xx)) = duel [loneA] (drift (xx - real n * 0.01))"
proof (induction n arbitrary: xx)
  case 0
  then show ?case by simp
next
  case (Suc n)
  have "xx - 0.01 \<le> 1" using Suc.prems by simp
  from Suc.IH [OF this]
  have "steps n (duel [loneA] (drift (xx - 0.01)))
          = duel [loneA] (drift (xx - real (Suc n) * 0.01))"
    by (simp add: algebra_simps add_divide_distrib)
  then show ?case
    using lone_step [OF Suc.prems, of "0.5"] by simp
qed

text \<open>
  Claim C4, as stated, fails in two ways. First, on a session whose scoring side is
  vacant: in an Active session that its Right participant has left, fifty physics steps
  after a serve to the left bring the ball to the left edge; in the next step the ball
  leaves the table, nobody scores, and the ball is not reset but stays beyond the edge.
  Second, on a score that a double cannot count further: when the ball leaves on the left
  and the Right participant's score is \<open>2^53\<close>, the score after the step is still \<open>2^53\<close>;
  a score message sets such a score.
\<close>

theorem scoring_fails_on_vacant_side_and_huge_score:
  "steps 50 (duel [loneA] serveBall) = duel [loneA] (drift 0)
   \<and> x (moveBall (duel [loneA] (drift 0))) < 0
   \<and> ball (updateBallPhysics 0.5 (duel [loneA] (drift 0))) = drift (- 0.01)
   \<and> ball (updateBallPhysics 0.5 (duel [loneA] (drift 0))) \<noteq> resetBall 0.5 Right
   \<and> map score (players (updateBallPhysics 0.5 (duel [loneA] (drift 0)))) = [0]
   \<and> x (moveBall (duel [human ''A'' Left, richB] exitBall)) < 0
   \<and> map score (players (duel [human ''A'' Left, richB] exitBall)) = [0, 2 ^ 53]
   \<and> map score (players (updateBallPhysics 0.5 (duel [human ''A'' Left, richB] exitBall)))
       = [0, 2 ^ 53]
   \<and> map_option (map score \<circ> players)
        (games (snd (updateScore calmEnv arena ''game-a1'' ''B'' (2 ^ 53))) ''game-a1'')
       = Some [0, 2 ^ 53]"
proof -
  have a: "steps 50 (duel [loneA] serveBall) = duel [loneA] (drift 0)"
    using lone_steps [of "0.5" 50] by (simp add: drift_def serveBall_def)
  have b: "updateBallPhysics 0.5 (duel [loneA] (drift 0)) = duel [loneA] (drift (- 0.01))"
    using lone_step [of 0 "0.5"] by simp
  have c: "x (moveBall (duel [loneA] (drift 0))) < 0"
    by (simp add: moveBall_def integrate_def bounceWalls_def leftPaddle_def rightPaddle_def
        onSide_def drift_def loneA_def human_def deltaTime_def)
  have d: "ball (updateBallPhysics 0.5 (duel [loneA] (drift 0))) = drift (- 0.01)"
    and e: "map score (players (updateBallPhysics 0.5 (duel [loneA] (drift 0)))) = [0]"
    unfolding b by (simp_all add: loneA_def human_def)
  have f: "drift (- 0.01) \<noteq> resetBall 0.5 Right"
    by (simp add: drift_def resetBall_def)
  have g: "x (moveBall (duel [human ''A'' Left, richB] exitBall)) < 0"
    by code_simp
  have h: "map score (players (duel [human ''A'' Left, richB] exitBall)) = [0, 2 ^ 53]"
    by (simp add: human_def richB_def)
  have i: "map score (players (updateBallPhysics 0.5 (duel [human ''A'' Left, richB] exitBall)))
       = [0, 2 ^ 53]"
    by code_simp
  have j: "map_option (map score \<circ> players)
        (games (snd (updateScore calmEnv arena ''game-a1'' ''B'' (2 ^ 53))) ''game-a1'')
       = Some [0, 2 ^ 53]"
    by code_simp
  from a c d e f g h i j show ?thesis
    unfolding d by blast
qed

text \<open>
  Claim C4, amended. In a physics step in which the ball's x is below 0 after the paddle
  tests and a participant stands on the Right whose score is an integer from \<open>-2^53\<close> up to,
  but not including, \<open>2^53\<close>, the first Right participant's score grows by exactly 1, every
  other participant (so every Left one) is unchanged, and the ball is reset to (0.5, 0.5)
  with speed 1 and a horizontal velocity towards the left, the side that conceded.
  Symmetrically when x is above 1 and such a participant stands on the Left.
\<close>

theorem scoring_event_with_scorer:
  "(x (moveBall g) < 0 \<and> find (onSide Right) (players g) = Some p
    \<and> - (2 ^ 53) \<le> score p \<and> score p < 2 ^ 53 \<longrightarrow>
      players (updateBallPhysics r g)
        = update_first (onSide Right) (\<lambda>q. q\<lparr>score := score q + 1\<rparr>) (players g)
      \<and> find (onSide Right) (players (updateBallPhysics r g)) = Some (p\<lparr>score := score p + 1\<rparr>)
      \<and> filter (onSide Left) (players (updateBallPhysics r g)) = filter (onSide Left) (players g)
      \<and> x (ball (updateBallPhysics r g)) = 0.5 \<and> y (ball (updateBallPhysics r g)) = 0.5
      \<and> speed (ball (updateBallPhysics r g)) = 1
      \<and> velocityX (ball (updateBallPhysics r g)) < 0)
   \<and> (x (moveBall g) > 1 \<and> find (onSide Left) (players g) = Some p
    \<and> - (2 ^ 53) \<le> score p \<and> score p < 2 ^ 53 \<longrightarrow>
      players (updateBallPhysics r g)
        = update_first (onSide Left) (\<lambda>q. q\<lparr>score := score q + 1\<rparr>) (players g)
      \<and> find (onSide Left) (players (updateBallPhysics r g)) = Some (p\<lparr>score := score p + 1\<rparr>)
      \<and> filter (onSide Right) (players (updateBallPhysics r g)) = filter (onSide Right) (players g)
      \<and> x (ball (updateBallPhysics r g)) = 0.5 \<and> y (ball (updateBallPhysics r g)) = 0.5
      \<and> speed (ball (updateBallPhysics r g)) = 1
      \<and> velocityX (ball (updateBallPhysics r g)) > 0)"
proof (intro conjI impI)
  assume a: "x (moveBall g) < 0 \<and> find (onSide Right) (players g) = Some p
    \<and> - (2 ^ 53) \<le> score p \<and> score p < 2 ^ 53"
  then have a1: "x (moveBall g) < 0" and a2: "find (onSide Right) (players g) = Some p"
    and ex: "addPoint p = p\<lparr>score := score p + 1\<rparr>"
    by (simp_all add: addPoint_exact)
  note s = scored_right [OF a1 a2, of r]
  show "players (updateBallPhysics r g)
        = update_first (onSide Right) (\<lambda>q. q\<lparr>score := score q + 1\<rparr>) (players g)"
    using s(1) update_first_at [OF a2, of addPoint "\<lambda>q. q\<lparr>score := score q + 1\<rparr>"] ex by simp
  show "find (onSide Right) (players (updateBallPhysics r g)) = Some (p\<lparr>score := score p + 1\<rparr>)"
    using s(1) find_addPoint [OF a2] ex by simp
  show "filter (onSide Left) (players (updateBallPhysics r g)) = filter (onSide Left) (players g)"
    using s by (simp add: other_side_kept)
  show "x (ball (updateBallPhysics r g)) = 0.5" "y (ball (updateBallPhysics r g)) = 0.5"
       "speed (ball (updateBallPhysics r g)) = 1" "velocityX (ball (updateBallPhysics r g)) < 0"
    using s by (simp_all add: resetBall_def)
next
  assume a: "x (moveBall g) > 1 \<and> find (onSide Left) (players g) = Some p
    \<and> - (2 ^ 53) \<le> score p \<and> score p < 2 ^ 53"
  then have a1: "x (moveBall g) > 1" and a2: "find (onSide Left) (players g) = Some p"
    and ex: "addPoint p = p\<lparr>score := score p + 1\<rparr>"
    by (simp_all add: addPoint_exact)
  note s = scored_left [OF a1 a2, of r]
  show "players (updateBallPhysics r g)
        = update_first (onSide Left) (\<lambda>q. q\<lparr>score := score q + 1\<rparr>) (players g)"
    using s(1) update_first_at [OF a2, of addPoint "\<lambda>q. q\<lparr>score := score q + 1\<rparr>"] ex by simp
  show "find (onSide Left) (players (updateBallPhysics r g)) = Some (p\<lparr>score := score p + 1\<rparr>)"
    using s(1) find_addPoint [OF a2] ex by simp
  show "filter (onSide Right) (players (updateBallPhysics r g)) = filter (onSide Right) (players g)"
    using s by (simp add: other_side_kept)
  show "x (ball (updateBallPhysics r g)) = 0.5" "y (ball (updateBallPhysics r g)) = 0.5"
       "speed (ball (updateBallPhysics r g)) = 1" "velocityX (ball (updateBallPhysics r g)) > 0"
    using s by (simp_all add: resetBall_def)
qed

lemma moveBall_exit:
  "moveBall (duel [human ''A'' Left, human ''B'' Right] exitBall)
     = \<lparr>x = - 0.005, y = 0.9, velocityX = - 0.6, velocityY = 0, speed = 1\<rparr>"
  by (simp add: moveBall_def duel_def human_def exitBall_def integrate_def bounceWalls_def
      leftPaddle_def rightPaddle_def onSide_def deltaTime_def)

theorem scoring_event_with_scorer_witness:
  "x (moveBall (duel [human ''A'' Left, human ''B'' Right] exitBall)) < 0
   \<and> find (onSide Right) (players (duel [human ''A'' Left, human ''B'' Right] exitBall))
       = Some (human ''B'' Right)
   \<and> - (2 ^ 53) \<le> score (human ''B'' Right) \<and> score (human ''B'' Right) < 2 ^ 53
   \<and> map score (players (updateBallPhysics 0.5 (duel [human ''A'' Left, human ''B'' Right] exitBall)))
       = [0, 1]
   \<and> x (ball (updateBallPhysics 0.5 (duel [human ''A'' Left, human ''B'' Right] exitBall))) = 0.5
   \<and> y (ball (updateBallPhysics 0.5 (duel [human ''A'' Left, human ''B'' Right] exitBall))) = 0.5
   \<and> speed (ball (updateBallPhysics 0.5 (duel [human ''A'' Left, human ''B'' Right] exitBall))) = 1
   \<and> velocityX (ball (updateBallPhysics 0.5 (duel [human ''A'' Left, human ''B'' Right] exitBall))) < 0
   \<and> x (moveBall (duel [human ''A'' Left, human ''B'' Right] exitBallRight)) > 1
   \<and> find (onSide Left) (players (duel [human ''A'' Left, human ''B'' Right] exitBallRight))
       = Some (human ''A'' Left)
   \<and> - (2 ^ 53) \<le> score (human ''A'' Left) \<and> score (human ''A'' Left) < 2 ^ 53
   \<and> map score (players (updateBallPhysics 0.5 (duel [human ''A'' Left, human ''B'' Right] exitBallRight)))
       = [1, 0]
   \<and> x (ball (updateBallPhysics 0.5 (duel [human ''A'' Left, human ''B'' Right] exitBallRight))) = 0.5
   \<and> velocityX (ball (updateBallPhysics 0.5 (duel [human ''A'' Left, human ''B'' Right] exitBallRight))) > 0"
proof -
  let ?g = "duel [human ''A'' Left, human ''B'' Right] exitBall"
  let ?k = "duel [human ''A'' Left, human ''B'' Right] exitBallRight"
  have h1: "x (moveBall ?g) < 0"
    by (simp add: moveBall_exit)
  have h2: "find (onSide Right) (players ?g) = Some (human ''B'' Right)"
    by (simp add: human_def onSide_def)
  have h3: "- (2 ^ 53) \<le> score (human ''B'' Right) \<and> score (human ''B'' Right) < 2 ^ 53"
    "- (2 ^ 53) \<le> score (human ''A'' Left) \<and> score (human ''A'' Left) < 2 ^ 53"
    by (simp_all add: human_def)
  have k1: "x (moveBall ?k) > 1"
    by code_simp
  have k2: "find (onSide Left) (players ?k) = Some (human ''A'' Left)"
    by (simp add: human_def onSide_def)
  from scoring_event_with_scorer [of ?g "human ''B'' Right" "0.5"] h1 h2 h3
  have "players (updateBallPhysics 0.5 ?g)
          = update_first (onSide Right) (\<lambda>q. q\<lparr>score := score q + 1\<rparr>) (players ?g)"
    and "x (ball (updateBallPhysics 0.5 ?g)) = 0.5" and "y (ball (updateBallPhysics 0.5 ?g)) = 0.5"
    and "speed (ball (updateBallPhysics 0.5 ?g)) = 1"
    and "velocityX (ball (updateBallPhysics 0.5 ?g)) < 0"
    by blast+
  moreover from scoring_event_with_scorer [of ?k "human ''A'' Left" "0.5"] k1 k2 h3
  have "players (updateBallPhysics 0.5 ?k)
          = update_first (onSide Left) (\<lambda>q. q\<lparr>score := score q + 1\<rparr>) (players ?k)"
    and "x (ball (updateBallPhysics 0.5 ?k)) = 0.5"
    and "velocityX (ball (updateBallPhysics 0.5 ?k)) > 0"
    by blast+
  ultimately show ?thesis
    using h1 h2 h3 k1 k2 by (simp add: human_def onSide_def)
qed

section \<open>Storage calls leave the registry alone\<close>

lemmas db_defs = db_createGame_def db_findGameById_def db_addPlayerToGame_def
  db_removePlayerFromGame_def db_getGamePlayers_def db_updateGameStatus_def
  db_recordGameMove_def db_updatePlayerScore_def db_isUserInGame_def
  db_getGamePlayerCount_def

lemma db_recordGameMove_frame:
  "db_recordGameMove e w gid uid pY ts = Some w' \<Longrightarrow>
   games w' = games w \<and> gameConnections w' = gameConnections w
   \<and> aiOpponents w' = aiOpponents w \<and> sendCalls w' = sendCalls w
   \<and> tbl_game_players w' = tbl_game_players w \<and> tbl_games w' = tbl_games w"
  by (auto simp: db_recordGameMove_def split: if_splits)

lemma db_updatePlayerScore_frame:
  "db_updatePlayerScore e w gid uid sc = Some w' \<Longrightarrow>
   games w' = games w \<and> gameConnections w' = gameConnections w
   \<and> aiOpponents w' = aiOpponents w \<and> sendCalls w' = sendCalls w
   \<and> tbl_games w' = tbl_games w"
  by (auto simp: db_updatePlayerScore_def split: if_splits)

lemma persistScores_frame:
  "persistScores e w gid ps = (ok, w') \<Longrightarrow>
   games w' = games w \<and> gameConnections w' = gameConnections w
   \<and> aiOpponents w' = aiOpponents w \<and> sendCalls w' = sendCalls w
   \<and> tbl_games w' = tbl_games w"
proof (induction ps arbitrary: w)
  case Nil
  then show ?case by simp
next
  case (Cons p ps)
  show ?case
  proof (cases "db_updatePlayerScore e w gid (userId p) (score p)")
    case None
    with Cons.prems show ?thesis by simp
  next
    case (Some w1)
    with Cons.prems have "persistScores e w1 gid ps = (ok, w')" by simp
    from Cons.IH [OF this] db_updatePlayerScore_frame [OF Some] show ?thesis by simp
  qed
qed

lemma persistScores_ok: "allDbOk e \<Longrightarrow> fst (persistScores e w gid ps)"
  by (induction ps arbitrary: w) (auto simp: allDbOk_def db_updatePlayerScore_def)

text \<open>No storage call looks at the channels.\<close>

lemma db_send_ok [simp]:
  "db_createGame (e\<lparr>send_ok := f\<rparr>) = db_createGame e"
  "db_findGameById (e\<lparr>send_ok := f\<rparr>) = db_findGameById e"
  "db_addPlayerToGame (e\<lparr>send_ok := f\<rparr>) = db_addPlayerToGame e"
  "db_removePlayerFromGame (e\<lparr>send_ok := f\<rparr>) = db_removePlayerFromGame e"
  "db_getGamePlayers (e\<lparr>send_ok := f\<rparr>) = db_getGamePlayers e"
  "db_updateGameStatus (e\<lparr>send_ok := f\<rparr>) = db_updateGameStatus e"
  "db_recordGameMove (e\<lparr>send_ok := f\<rparr>) = db_recordGameMove e"
  "db_updatePlayerScore (e\<lparr>send_ok := f\<rparr>) = db_updatePlayerScore e"
  "db_isUserInGame (e\<lparr>send_ok := f\<rparr>) = db_isUserInGame e"
  "db_getGamePlayerCount (e\<lparr>send_ok := f\<rparr>) = db_getGamePlayerCount e"
  by (auto simp: fun_eq_iff db_defs)

lemma persistScores_send_ok [simp]:
  "persistScores (e\<lparr>send_ok := f\<rparr>) w gid ps = persistScores e w gid ps"
  by (induction ps arbitrary: w) (auto split: option.splits)

lemma reconstruct_send_ok [simp]: "reconstruct (e\<lparr>send_ok := f\<rparr>) = reconstruct e"
  by (simp add: fun_eq_iff reconstruct_def)

section \<open>Broadcasts\<close>

text \<open>The running session used below is the one A creates and B joins, with three channels
  attached.\<close>

lemma arena_reached:
  "arena = addConnection (addConnection (addConnection
      (snd (joinGame calmEnv soloWorld ''game-a1'' ''B'' ''B'' None)) ''game-a1'' 1) ''game-a1'' 2) ''game-a1'' 3"
  by (simp add: arena_def soloWorld_def addConnection_def joinGame_def addJoiner_def createPvPGame_def
      broadcastGameState_def db_defs hasRow_def playerRows_def calmEnv_def emptyWorld_def Let_def
      initializeBall_def duel_def human_def serveBall_def codeMismatch_def)


lemma broadcast_games [simp]: "games (broadcastGameState e w gid g) = games w"
  by (simp add: broadcastGameState_def split: option.splits)

lemma broadcast_sendCalls:
  "gameConnections w gid = Some cs \<Longrightarrow>
   sendCalls (broadcastGameState e w gid g) = sendCalls w @ map (\<lambda>c. (c, g)) cs"
  by (simp add: broadcastGameState_def)

lemma broadcast_connections:
  "gameConnections w gid = Some cs \<Longrightarrow>
   gameConnections (broadcastGameState e w gid g) gid = Some (filter (send_ok e) cs)"
  by (simp add: broadcastGameState_def)

text \<open>The outcome of an operation and the registry it leaves do not depend on which
  channel writes throw.\<close>

lemma updateScore_send:
  "fst (updateScore (e\<lparr>send_ok := f\<rparr>) w gid uid sc) = fst (updateScore e w gid uid sc)
   \<and> games (snd (updateScore (e\<lparr>send_ok := f\<rparr>) w gid uid sc))
       = games (snd (updateScore e w gid uid sc))"
  by (simp add: updateScore_def Let_def split: option.splits)

lemma stepAndBroadcast_send:
  "fst (stepAndBroadcast (e\<lparr>send_ok := f\<rparr>) w gid g) = fst (stepAndBroadcast e w gid g)
   \<and> games (snd (stepAndBroadcast (e\<lparr>send_ok := f\<rparr>) w gid g))
       = games (snd (stepAndBroadcast e w gid g))"
  by (simp add: stepAndBroadcast_def Let_def split: option.splits prod.splits bool.splits)

lemma aiResponse_send:
  "fst (aiResponse (e\<lparr>send_ok := f\<rparr>) w gid g) = fst (aiResponse e w gid g)
   \<and> games (snd (aiResponse (e\<lparr>send_ok := f\<rparr>) w gid g)) = games (snd (aiResponse e w gid g))"
  by (simp add: aiResponse_def Let_def stepAndBroadcast_send split: option.splits)

lemma handlePlayerMove_send:
  "fst (handlePlayerMove (e\<lparr>send_ok := f\<rparr>) w gid uid pY ts)
     = fst (handlePlayerMove e w gid uid pY ts)
   \<and> games (snd (handlePlayerMove (e\<lparr>send_ok := f\<rparr>) w gid uid pY ts))
       = games (snd (handlePlayerMove e w gid uid pY ts))"
  by (simp add: handlePlayerMove_def Let_def aiResponse_send split: option.splits bool.splits)

lemma leaveGame_send:
  "fst (leaveGame (e\<lparr>send_ok := f\<rparr>) w gid uid) = fst (leaveGame e w gid uid)
   \<and> games (snd (leaveGame (e\<lparr>send_ok := f\<rparr>) w gid uid)) = games (snd (leaveGame e w gid uid))"
  by (simp add: leaveGame_def Let_def split: option.splits)

lemma addJoiner_send:
  "fst (addJoiner (e\<lparr>send_ok := f\<rparr>) w gid g uid un) = fst (addJoiner e w gid g uid un)
   \<and> games (snd (addJoiner (e\<lparr>send_ok := f\<rparr>) w gid g uid un))
       = games (snd (addJoiner e w gid g uid un))"
  by (simp add: addJoiner_def Let_def split: option.splits)

lemma joinGame_send:
  "fst (joinGame (e\<lparr>send_ok := f\<rparr>) w gid uid un rc) = fst (joinGame e w gid uid un rc)
   \<and> games (snd (joinGame (e\<lparr>send_ok := f\<rparr>) w gid uid un rc))
       = games (snd (joinGame e w gid uid un rc))"
  by (simp add: joinGame_def Let_def addJoiner_send split: option.splits bool.splits)

text \<open>
  Claim C8. Let a broadcast go to a channel set \<open>cs\<close> one of whose channels, \<open>c\<close>, throws on
  the write. Then the write is attempted on every channel of \<open>cs\<close>, in order; the set
  left behind is \<open>cs\<close> without the channels that threw, so without \<open>c\<close> and with every
  channel whose write went through; the registry is untouched; the next broadcast
  writes to the remaining channels only, not to \<open>c\<close>. The broadcast itself yields a
  world and no error, and for each operation that ends in a broadcast (move, score
  message, join, leave) the outcome and the registry are the same as if no write had thrown.
\<close>

theorem broadcast_prunes_failed_channel:
  assumes "gameConnections w gid = Some cs" and "c \<in> set cs" and "\<not> send_ok e c"
  shows "sendCalls (broadcastGameState e w gid g) = sendCalls w @ map (\<lambda>k. (k, g)) cs
     \<and> gameConnections (broadcastGameState e w gid g) gid = Some (filter (send_ok e) cs)
     \<and> c \<notin> set (filter (send_ok e) cs)
     \<and> (\<forall>k \<in> set cs. send_ok e k \<longrightarrow> k \<in> set (filter (send_ok e) cs))
     \<and> games (broadcastGameState e w gid g) = games w
     \<and> sendCalls (broadcastGameState e' (broadcastGameState e w gid g) gid g')
         = sendCalls (broadcastGameState e w gid g) @ map (\<lambda>k. (k, g')) (filter (send_ok e) cs)
     \<and> c \<notin> fst ` set (map (\<lambda>k. (k, g')) (filter (send_ok e) cs))
     \<and> fst (handlePlayerMove e w gid uid pY ts)
         = fst (handlePlayerMove (e\<lparr>send_ok := (\<lambda>_. True)\<rparr>) w gid uid pY ts)
     \<and> games (snd (handlePlayerMove e w gid uid pY ts))
         = games (snd (handlePlayerMove (e\<lparr>send_ok := (\<lambda>_. True)\<rparr>) w gid uid pY ts))
     \<and> fst (updateScore e w gid uid sc) = fst (updateScore (e\<lparr>send_ok := (\<lambda>_. True)\<rparr>) w gid uid sc)
     \<and> games (snd (updateScore e w gid uid sc))
         = games (snd (updateScore (e\<lparr>send_ok := (\<lambda>_. True)\<rparr>) w gid uid sc))
     \<and> fst (joinGame e w gid uid un rc) = fst (joinGame (e\<lparr>send_ok := (\<lambda>_. True)\<rparr>) w gid uid un rc)
     \<and> games (snd (joinGame e w gid uid un rc))
         = games (snd (joinGame (e\<lparr>send_ok := (\<lambda>_. True)\<rparr>) w gid uid un rc))
     \<and> fst (leaveGame e w gid uid) = fst (leaveGame (e\<lparr>send_ok := (\<lambda>_. True)\<rparr>) w gid uid)
     \<and> games (snd (leaveGame e w gid uid))
         = games (snd (leaveGame (e\<lparr>send_ok := (\<lambda>_. True)\<rparr>) w gid uid))"
proof -
  have "sendCalls (broadcastGameState e w gid g) = sendCalls w @ map (\<lambda>k. (k, g)) cs"
    and "gameConnections (broadcastGameState e w gid g) gid = Some (filter (send_ok e) cs)"
    and "sendCalls (broadcastGameState e' (broadcastGameState e w gid g) gid g')
         = sendCalls (broadcastGameState e w gid g) @ map (\<lambda>k. (k, g')) (filter (send_ok e) cs)"
    using assms(1) by (simp_all add: broadcast_sendCalls broadcast_connections)
  moreover have "c \<notin> set (filter (send_ok e) cs)"
    and "\<forall>k \<in> set cs. send_ok e k \<longrightarrow> k \<in> set (filter (send_ok e) cs)"
    and "c \<notin> fst ` set (map (\<lambda>k. (k, g')) (filter (send_ok e) cs))"
    using assms(3) by auto
  ultimately show ?thesis
    using handlePlayerMove_send [where e = e and f = "\<lambda>_. True"]
      updateScore_send [where e = e and f = "\<lambda>_. True"]
      joinGame_send [where e = e and f = "\<lambda>_. True"]
      leaveGame_send [where e = e and f = "\<lambda>_. True"]
    by simp
qed

theorem broadcast_prunes_failed_channel_witness:
  "gameConnections arena ''game-a1'' = Some [1, 2, 3]
   \<and> (2::nat) \<in> set [1, 2, 3]
   \<and> \<not> send_ok (calmEnv\<lparr>send_ok := (\<lambda>k. k \<noteq> 2)\<rparr>) 2
   \<and> map fst (sendCalls (broadcastGameState (calmEnv\<lparr>send_ok := (\<lambda>k. k \<noteq> 2)\<rparr>) arena ''game-a1''
          (duel [] serveBall))) = [1, 2, 3]
   \<and> gameConnections (broadcastGameState (calmEnv\<lparr>send_ok := (\<lambda>k. k \<noteq> 2)\<rparr>) arena ''game-a1''
          (duel [] serveBall)) ''game-a1'' = Some [1, 3]
   \<and> map fst (sendCalls (broadcastGameState calmEnv
          (broadcastGameState (calmEnv\<lparr>send_ok := (\<lambda>k. k \<noteq> 2)\<rparr>) arena ''game-a1''
             (duel [] serveBall)) ''game-a1'' (duel [] exitBall))) = [1, 2, 3, 1, 3]"
proof -
  let ?e = "calmEnv\<lparr>send_ok := (\<lambda>k. k \<noteq> 2)\<rparr>"
  have h1: "gameConnections arena ''game-a1'' = Some [1, 2, 3]"
    by (simp add: arena_def)
  have h2: "(2::nat) \<in> set [1, 2, 3]" by simp
  have h3: "\<not> send_ok ?e 2" by simp
  have s0: "sendCalls arena = []" by (simp add: arena_def)
  have f: "filter (send_ok ?e) [1, 2, 3] = [1, 3]" by simp
  show ?thesis
    using broadcast_prunes_failed_channel [OF h1 h2 h3,
        of "duel [] serveBall" calmEnv "duel [] exitBall" "''A''" 0 None 0 "''A''" None]
      h1 h2 h3
    by (simp add: s0 f)
qed

section \<open>Participants across a move\<close>

lemma clamp_range: "0.1 \<le> max 0.1 (min 0.9 (z::real)) \<and> max 0.1 (min 0.9 z) \<le> 0.9"
  by (auto simp: max_def min_def)


lemma evolves_refl [simp]: "evolves p p"
  by (simp add: evolves_def)

lemma evolves_trans: "evolves p q \<Longrightarrow> evolves q r \<Longrightarrow> evolves p r"
  by (auto simp: evolves_def)

lemma roster_refl [simp]: "list_all2 evolves ps ps"
  by (simp add: list_all2_refl)

lemma roster_trans:
  "list_all2 evolves ps qs \<Longrightarrow> list_all2 evolves qs rs \<Longrightarrow> list_all2 evolves ps rs"
  using list_all2_trans [of evolves evolves evolves ps qs rs] evolves_trans by blast

lemma update_first_evolves:
  "(\<And>p. evolves p (f p)) \<Longrightarrow> list_all2 evolves ps (update_first Q f ps)"
  by (induction ps) auto

lemma addPoint_evolves: "evolves p (addPoint p)"
  by (simp add: evolves_def addPoint_def jsSucc_ge)

lemma physics_evolves: "list_all2 evolves (players g) (players (updateBallPhysics r g))"
  by (simp add: updateBallPhysics_def checkScoring_def update_first_evolves addPoint_evolves
      split: option.splits)

lemma movePaddle_evolves: "list_all2 evolves (players g) (players (movePaddle g uid pY))"
  unfolding movePaddle_def using clamp_range [of pY]
  by simp (rule update_first_evolves, simp add: evolves_def)

lemma aiPaddle_evolves:
  "0.1 \<le> a \<Longrightarrow> a \<le> 0.9 \<Longrightarrow> list_all2 evolves (players g) (players (aiPaddle g a))"
  unfolding aiPaddle_def by simp (rule update_first_evolves, simp add: evolves_def)

lemma aiMoveWith_range: "0.1 \<le> aiMoveWith c b r \<and> aiMoveWith c b r \<le> 0.9"
  unfolding aiMoveWith_def Let_def by (rule clamp_range)

lemma calculateAIMove_range:
  "0.1 \<le> calculateAIMove w gid b r \<and> calculateAIMove w gid b r \<le> 0.9"
proof (cases "aiOpponents w gid")
  case None
  then show ?thesis by (simp add: calculateAIMove_def)
next
  case (Some c)
  then show ?thesis using aiMoveWith_range [of c b r] by (simp add: calculateAIMove_def)
qed

lemma stepAndBroadcast_games:
  "\<exists>g'. games (snd (stepAndBroadcast e w gid g)) gid = Some g'
        \<and> players g' = players (updateBallPhysics (rndServe e) g)
        \<and> ball g' = ball (updateBallPhysics (rndServe e) g)
        \<and> status g' = status (updateBallPhysics (rndServe e) g)"
proof -
  let ?g1 = "updateBallPhysics (rndServe e) g"
  let ?w1 = "w\<lparr>games := (games w)(gid \<mapsto> ?g1)\<rparr>"
  obtain ok w2 where p: "persistScores e ?w1 gid (players ?g1) = (ok, w2)"
    by (cases "persistScores e ?w1 gid (players ?g1)")
  from persistScores_frame [OF p] have "games w2 = (games w)(gid \<mapsto> ?g1)" by simp
  then show ?thesis
    using p by (cases ok) (simp_all add: stepAndBroadcast_def Let_def)
qed

lemma stepAndBroadcast_evolves:
  "\<exists>g'. games (snd (stepAndBroadcast e w gid g)) gid = Some g'
        \<and> list_all2 evolves (players g) (players g')"
  using stepAndBroadcast_games [of e w gid g] physics_evolves [of g "rndServe e"] by auto

lemma aiResponse_evolves:
  "\<exists>g'. games (snd (aiResponse e w gid g)) gid = Some g'
        \<and> list_all2 evolves (players g) (players g')"
proof (cases "isAiGame g \<and> find isAi (players g) \<noteq> None")
  case False
  then show ?thesis
    using stepAndBroadcast_evolves [of e w gid g] by (auto simp: aiResponse_def)
next
  case True
  let ?a = "calculateAIMove w gid (ball g) (rndError e)"
  let ?g1 = "aiPaddle g ?a"
  let ?w1 = "w\<lparr>games := (games w)(gid \<mapsto> ?g1)\<rparr>"
  have ev: "list_all2 evolves (players g) (players ?g1)"
    using calculateAIMove_range [of w gid "ball g" "rndError e"] by (simp add: aiPaddle_evolves)
  show ?thesis
  proof (cases "db_recordGameMove e ?w1 gid ''ai'' ?a (now e)")
    case None
    then show ?thesis
      using True ev by (auto simp: aiResponse_def Let_def)
  next
    case (Some w2)
    from stepAndBroadcast_evolves [of e w2 gid ?g1] obtain g'
      where "games (snd (stepAndBroadcast e w2 gid ?g1)) gid = Some g'"
        and "list_all2 evolves (players ?g1) (players g')" by blast
    then show ?thesis
      using True Some roster_trans [OF ev] by (auto simp: aiResponse_def Let_def)
  qed
qed

lemma move_accepted:
  assumes "games w gid = Some g" and "status g = Active"
    and "db_isUserInGame e w gid uid = Some True"
  shows "\<exists>g'. games (snd (handlePlayerMove e w gid uid pY ts)) gid = Some g'
             \<and> list_all2 evolves (players (movePaddle g uid pY)) (players g')"
proof -
  let ?g1 = "movePaddle g uid pY"
  let ?w1 = "w\<lparr>games := (games w)(gid \<mapsto> ?g1)\<rparr>"
  let ?t = "case ts of None \<Rightarrow> now e | Some t \<Rightarrow> if t = 0 then now e else t"
  show ?thesis
  proof (cases "db_recordGameMove e ?w1 gid uid pY ?t")
    case None
    then show ?thesis
      using assms by (simp add: handlePlayerMove_def Let_def)
  next
    case (Some w2)
    then show ?thesis
      using assms aiResponse_evolves [of e w2 gid ?g1] by (simp add: handlePlayerMove_def Let_def)
  qed
qed

lemma move_evolves:
  assumes "games w gid = Some g"
  shows "\<exists>g'. games (snd (handlePlayerMove e w gid uid pY ts)) gid = Some g'
             \<and> list_all2 evolves (players g) (players g')"
proof (cases "status g = Active \<and> db_isUserInGame e w gid uid = Some True")
  case True
  with move_accepted [of w gid g e uid pY ts] assms obtain g'
    where "games (snd (handlePlayerMove e w gid uid pY ts)) gid = Some g'"
      and "list_all2 evolves (players (movePaddle g uid pY)) (players g')" by blast
  then show ?thesis
    using roster_trans [OF movePaddle_evolves [of g uid pY]] by blast
next
  case False
  then have "snd (handlePlayerMove e w gid uid pY ts) = w"
    using assms by (auto simp: handlePlayerMove_def split: option.splits bool.splits)
  then show ?thesis using assms by simp
qed


lemma find_evolves:
  "list_all2 evolves ps qs \<Longrightarrow> find (\<lambda>p. userId p = uid) ps = Some p \<Longrightarrow>
   \<exists>q. find (\<lambda>p. userId p = uid) qs = Some q \<and> evolves p q"
proof (induction ps qs rule: list_all2_induct)
  case Nil
  then show ?case by simp
next
  case (Cons a ps b qs)
  then show ?case by (auto simp: evolves_def split: if_splits)
qed

lemma movePaddle_find:
  "find (\<lambda>p. userId p = uid) (players g) = Some p \<Longrightarrow>
   find (\<lambda>p. userId p = uid) (players (movePaddle g uid pY))
     = Some (p\<lparr>paddleY := max 0.1 (min 0.9 pY)\<rparr>)"
  using find_update_first_same [of "\<lambda>p. userId p = uid" "players g" p
      "\<lambda>p. p\<lparr>paddleY := max 0.1 (min 0.9 pY)\<rparr>"]
  by (simp add: movePaddle_def)

text \<open>What a move keeps of every participant: identity and kind, and the paddle position
  unless the participant is the synthetic one of a session against the synthetic
  opponent.\<close>

lemma sameSeat_refl [simp]: "sameSeat a p p"
  by (simp add: sameSeat_def)

lemma sameSeat_trans: "sameSeat a p q \<Longrightarrow> sameSeat a q r \<Longrightarrow> sameSeat a p r"
  by (auto simp: sameSeat_def)

lemma roster_sameSeat_refl [simp]: "list_all2 (sameSeat a) ps ps"
  by (simp add: list_all2_refl)

lemma roster_sameSeat_trans:
  "list_all2 (sameSeat a) ps qs \<Longrightarrow> list_all2 (sameSeat a) qs rs \<Longrightarrow> list_all2 (sameSeat a) ps rs"
  using list_all2_trans [of "sameSeat a" "sameSeat a" "sameSeat a" ps qs rs] sameSeat_trans by blast

lemma update_first_sameSeat:
  "(\<And>p. Q p \<Longrightarrow> sameSeat a p (f p)) \<Longrightarrow> list_all2 (sameSeat a) ps (update_first Q f ps)"
  by (induction ps) auto

lemma physics_sameSeat: "list_all2 (sameSeat a) (players g) (players (updateBallPhysics r g))"
  by (simp add: updateBallPhysics_def checkScoring_def update_first_sameSeat addPoint_def
      sameSeat_def split: option.splits)

lemma aiPaddle_sameSeat: "list_all2 (sameSeat True) (players g) (players (aiPaddle g m))"
  unfolding aiPaddle_def by simp (rule update_first_sameSeat, simp add: sameSeat_def)

lemma stepAndBroadcast_sameSeat:
  "\<exists>g'. games (snd (stepAndBroadcast e w gid g)) gid = Some g'
        \<and> list_all2 (sameSeat a) (players g) (players g')"
  using stepAndBroadcast_games [of e w gid g] physics_sameSeat [of a g "rndServe e"] by auto

lemma aiResponse_sameSeat:
  "\<exists>g'. games (snd (aiResponse e w gid g)) gid = Some g'
        \<and> list_all2 (sameSeat (isAiGame g)) (players g) (players g')"
proof (cases "isAiGame g \<and> find isAi (players g) \<noteq> None")
  case False
  then show ?thesis
    using stepAndBroadcast_sameSeat [of e w gid g] by (auto simp: aiResponse_def)
next
  case True
  let ?a = "calculateAIMove w gid (ball g) (rndError e)"
  let ?g1 = "aiPaddle g ?a"
  let ?w1 = "w\<lparr>games := (games w)(gid \<mapsto> ?g1)\<rparr>"
  have ev: "list_all2 (sameSeat (isAiGame g)) (players g) (players ?g1)"
    using True aiPaddle_sameSeat [of g ?a] by simp
  show ?thesis
  proof (cases "db_recordGameMove e ?w1 gid ''ai'' ?a (now e)")
    case None
    then show ?thesis
      using True ev by (auto simp: aiResponse_def Let_def)
  next
    case (Some w2)
    from stepAndBroadcast_sameSeat [of e w2 gid ?g1 "isAiGame g"] obtain g'
      where "games (snd (stepAndBroadcast e w2 gid ?g1)) gid = Some g'"
        and "list_all2 (sameSeat (isAiGame g)) (players ?g1) (players g')" by blast
    then show ?thesis
      using True Some roster_sameSeat_trans [OF ev] by (auto simp: aiResponse_def Let_def)
  qed
qed

lemma movePaddle_isAiGame [simp]: "isAiGame (movePaddle g uid pY) = isAiGame g"
  by (simp add: movePaddle_def)

lemma move_sameSeat:
  assumes "games w gid = Some g" and "status g = Active"
    and "db_isUserInGame e w gid uid = Some True"
  shows "\<exists>g'. games (snd (handlePlayerMove e w gid uid pY ts)) gid = Some g'
             \<and> list_all2 (sameSeat (isAiGame g)) (players (movePaddle g uid pY)) (players g')"
proof -
  let ?g1 = "movePaddle g uid pY"
  let ?w1 = "w\<lparr>games := (games w)(gid \<mapsto> ?g1)\<rparr>"
  let ?t = "case ts of None \<Rightarrow> now e | Some t \<Rightarrow> if t = 0 then now e else t"
  show ?thesis
  proof (cases "db_recordGameMove e ?w1 gid uid pY ?t")
    case None
    then show ?thesis
      using assms by (simp add: handlePlayerMove_def Let_def)
  next
    case (Some w2)
    then show ?thesis
      using assms aiResponse_sameSeat [of e w2 gid ?g1] by (simp add: handlePlayerMove_def Let_def)
  qed
qed

lemma find_sameSeat:
  "list_all2 (sameSeat a) ps qs \<Longrightarrow> find (\<lambda>p. userId p = uid) ps = Some p \<Longrightarrow>
   \<exists>q. find (\<lambda>p. userId p = uid) qs = Some q \<and> sameSeat a p q"
proof (induction ps qs rule: list_all2_induct)
  case Nil
  then show ?case by simp
next
  case (Cons a ps b qs)
  then show ?case by (auto simp: sameSeat_def split: if_splits)
qed

lemma stepAndBroadcast_outcome:
  "fst (stepAndBroadcast e w gid g) = Inr () \<or> fst (stepAndBroadcast e w gid g) = Inl DbFailure"
  by (simp add: stepAndBroadcast_def Let_def split: prod.splits bool.splits)

lemma aiResponse_outcome:
  "fst (aiResponse e w gid g) = Inr () \<or> fst (aiResponse e w gid g) = Inl DbFailure"
  using stepAndBroadcast_outcome
  by (simp add: aiResponse_def Let_def split: option.splits)

lemma move_outcome:
  assumes "games w gid = Some g" and "status g = Active"
    and "db_isUserInGame e w gid uid = Some True"
  shows "fst (handlePlayerMove e w gid uid pY ts) = Inr ()
         \<or> fst (handlePlayerMove e w gid uid pY ts) = Inl DbFailure"
  using assms aiResponse_outcome
  by (simp add: handlePlayerMove_def Let_def split: option.splits)

lemma arena_game:
  "games arena ''game-a1'' = Some (duel [human ''A'' Left, human ''B'' Right] serveBall)"
  by (simp add: arena_def)

lemma arena_member: "db_isUserInGame calmEnv arena ''game-a1'' ''A'' = Some True"
  by (simp add: db_isUserInGame_def hasRow_def playerRows_def arena_def calmEnv_def)

section \<open>Moves without and with storage failures\<close>

lemma hasRow_keys: "hasRow w gid uid = ((gid, uid) \<in> set (rowKeys w))"
  by (auto simp: hasRow_def playerRows_def rowKeys_def)

lemma db_updatePlayerScore_keys:
  "db_updatePlayerScore e w gid uid sc = Some w' \<Longrightarrow> rowKeys w' = rowKeys w"
  by (auto simp: db_updatePlayerScore_def rowKeys_def split: if_splits)

lemma persistScores_keys:
  "persistScores e w gid ps = (ok, w') \<Longrightarrow> rowKeys w' = rowKeys w"
proof (induction ps arbitrary: w)
  case Nil
  then show ?case by simp
next
  case (Cons p ps)
  show ?case
  proof (cases "db_updatePlayerScore e w gid (userId p) (score p)")
    case None
    with Cons.prems show ?thesis by simp
  next
    case (Some w1)
    with Cons.prems have "persistScores e w1 gid ps = (ok, w')" by simp
    from Cons.IH [OF this] db_updatePlayerScore_keys [OF Some] show ?thesis by simp
  qed
qed

lemma calculateAIMove_cong:
  "aiOpponents w' = aiOpponents w \<Longrightarrow> calculateAIMove w' gid b r = calculateAIMove w gid b r"
  by (simp add: calculateAIMove_def)

lemma broadcast_frame [simp]:
  "aiOpponents (broadcastGameState e w gid g) = aiOpponents w"
  "tbl_game_players (broadcastGameState e w gid g) = tbl_game_players w"
  "tbl_games (broadcastGameState e w gid g) = tbl_games w"
  by (simp_all add: broadcastGameState_def split: option.splits)

lemma broadcast_sendCalls_channels:
  "sendCalls (broadcastGameState e w gid g) = sendCalls w @ map (\<lambda>c. (c, g)) (channels w gid)"
  by (simp add: broadcastGameState_def channels_def split: option.splits)

lemma rowKeys_simps [simp]:
  "rowKeys (w\<lparr>games := gs\<rparr>) = rowKeys w"
  "rowKeys (broadcastGameState e w gid g) = rowKeys w"
  by (simp_all add: rowKeys_def)

lemma channels_games [simp]: "channels (w\<lparr>games := gs\<rparr>) gid = channels w gid"
  by (simp add: channels_def)

lemma stepAndBroadcast_ok:
  assumes "allDbOk e"
  shows "fst (stepAndBroadcast e w gid g) = Inr ()
    \<and> games (snd (stepAndBroadcast e w gid g))
        = (games w)(gid \<mapsto> (updateBallPhysics (rndServe e) g)\<lparr>lastUpdate := now e\<rparr>)
    \<and> sendCalls (snd (stepAndBroadcast e w gid g))
        = sendCalls w @ map (\<lambda>c. (c, (updateBallPhysics (rndServe e) g)\<lparr>lastUpdate := now e\<rparr>))
                          (channels w gid)"
proof -
  let ?g1 = "updateBallPhysics (rndServe e) g"
  let ?w1 = "w\<lparr>games := (games w)(gid \<mapsto> ?g1)\<rparr>"
  obtain ok w2 where p: "persistScores e ?w1 gid (players ?g1) = (ok, w2)"
    by (cases "persistScores e ?w1 gid (players ?g1)")
  from persistScores_ok [OF assms, of ?w1 gid "players ?g1"] p have ok: "ok" by simp
  from persistScores_frame [OF p]
  have f: "games w2 = (games w)(gid \<mapsto> ?g1)" "sendCalls w2 = sendCalls w"
    "gameConnections w2 = gameConnections w" by simp_all
  have c: "channels w2 gid = channels w gid"
    by (simp add: channels_def f)
  show ?thesis
    using p ok f c by (simp add: stepAndBroadcast_def Let_def broadcast_sendCalls_channels)
qed

lemma stepAndBroadcast_frame:
  "aiOpponents (snd (stepAndBroadcast e w gid g)) = aiOpponents w
   \<and> rowKeys (snd (stepAndBroadcast e w gid g)) = rowKeys w"
proof -
  let ?g1 = "updateBallPhysics (rndServe e) g"
  let ?w1 = "w\<lparr>games := (games w)(gid \<mapsto> ?g1)\<rparr>"
  obtain ok w2 where p: "persistScores e ?w1 gid (players ?g1) = (ok, w2)"
    by (cases "persistScores e ?w1 gid (players ?g1)")
  from persistScores_frame [OF p] persistScores_keys [OF p]
  have "aiOpponents w2 = aiOpponents w" "rowKeys w2 = rowKeys w" by simp_all
  then show ?thesis
    using p by (cases ok) (simp_all add: stepAndBroadcast_def Let_def)
qed

lemma db_recordGameMove_ok:
  "allDbOk e \<Longrightarrow> db_recordGameMove e w gid uid pY ts
     = Some (w\<lparr>tbl_game_moves := tbl_game_moves w @ [(gid, uid, pY, ts)]\<rparr>)"
  by (simp add: db_recordGameMove_def allDbOk_def)

lemma db_recordGameMove_keys:
  "db_recordGameMove e w gid uid pY ts = Some w' \<Longrightarrow> rowKeys w' = rowKeys w"
  by (auto simp: db_recordGameMove_def rowKeys_def split: if_splits)

lemma aiResponse_frame:
  "aiOpponents (snd (aiResponse e w gid g)) = aiOpponents w
   \<and> rowKeys (snd (aiResponse e w gid g)) = rowKeys w"
proof (cases "isAiGame g \<and> find isAi (players g) \<noteq> None")
  case False
  then show ?thesis
    using stepAndBroadcast_frame [of e w gid g] by (auto simp: aiResponse_def)
next
  case True
  let ?a = "calculateAIMove w gid (ball g) (rndError e)"
  let ?w1 = "w\<lparr>games := (games w)(gid \<mapsto> aiPaddle g ?a)\<rparr>"
  show ?thesis
  proof (cases "db_recordGameMove e ?w1 gid ''ai'' ?a (now e)")
    case None
    then show ?thesis using True by (auto simp: aiResponse_def Let_def)
  next
    case (Some w2)
    from db_recordGameMove_frame [OF Some] db_recordGameMove_keys [OF Some]
      stepAndBroadcast_frame [of e w2 gid "aiPaddle g ?a"]
    show ?thesis using True Some by (auto simp: aiResponse_def Let_def)
  qed
qed

lemma handlePlayerMove_frame:
  "aiOpponents (snd (handlePlayerMove e w gid uid pY ts)) = aiOpponents w
   \<and> rowKeys (snd (handlePlayerMove e w gid uid pY ts)) = rowKeys w"
proof (cases "\<exists>g. games w gid = Some g \<and> status g = Active \<and> db_isUserInGame e w gid uid = Some True")
  case False
  then have "snd (handlePlayerMove e w gid uid pY ts) = w"
    by (auto simp: handlePlayerMove_def split: option.splits bool.splits)
  then show ?thesis by simp
next
  case True
  then obtain g where g: "games w gid = Some g" "status g = Active"
    "db_isUserInGame e w gid uid = Some True" by blast
  let ?w1 = "w\<lparr>games := (games w)(gid \<mapsto> movePaddle g uid pY)\<rparr>"
  let ?t = "case ts of None \<Rightarrow> now e | Some t \<Rightarrow> if t = 0 then now e else t"
  show ?thesis
  proof (cases "db_recordGameMove e ?w1 gid uid pY ?t")
    case None
    then show ?thesis using g by (simp add: handlePlayerMove_def Let_def)
  next
    case (Some w2)
    from db_recordGameMove_frame [OF Some] db_recordGameMove_keys [OF Some]
      aiResponse_frame [of e w2 gid "movePaddle g uid pY"]
    show ?thesis using g Some by (simp add: handlePlayerMove_def Let_def)
  qed
qed

lemma aiResponse_ok:
  assumes "allDbOk e"
  shows "fst (aiResponse e w gid g) = Inr ()
    \<and> games (snd (aiResponse e w gid g))
        = (games w)(gid \<mapsto> (updateBallPhysics (rndServe e)
             (if isAiGame g \<and> find isAi (players g) \<noteq> None
              then aiPaddle g (calculateAIMove w gid (ball g) (rndError e)) else g))
             \<lparr>lastUpdate := now e\<rparr>)
    \<and> sendCalls (snd (aiResponse e w gid g))
        = sendCalls w @ map (\<lambda>c. (c, (updateBallPhysics (rndServe e)
             (if isAiGame g \<and> find isAi (players g) \<noteq> None
              then aiPaddle g (calculateAIMove w gid (ball g) (rndError e)) else g))
             \<lparr>lastUpdate := now e\<rparr>)) (channels w gid)"
proof (cases "isAiGame g \<and> find isAi (players g) \<noteq> None")
  case False
  then show ?thesis
    using stepAndBroadcast_ok [OF assms, of w gid g] by (auto simp: aiResponse_def)
next
  case True
  let ?a = "calculateAIMove w gid (ball g) (rndError e)"
  let ?w1 = "w\<lparr>games := (games w)(gid \<mapsto> aiPaddle g ?a)\<rparr>"
  let ?w2 = "?w1\<lparr>tbl_game_moves := tbl_game_moves ?w1 @ [(gid, ''ai'', ?a, now e)]\<rparr>"
  have r: "db_recordGameMove e ?w1 gid ''ai'' ?a (now e) = Some ?w2"
    by (rule db_recordGameMove_ok [OF assms])
  have c: "channels ?w2 gid = channels w gid" by (simp add: channels_def)
  show ?thesis
    using True r c stepAndBroadcast_ok [OF assms, of ?w2 gid "aiPaddle g ?a"]
    by (auto simp: aiResponse_def Let_def)
qed

lemma movePaddle_sel [simp]:
  "ball (movePaddle g uid pY) = ball g" "isAiGame (movePaddle g uid pY) = isAiGame g"
  "status (movePaddle g uid pY) = status g"
  by (simp_all add: movePaddle_def)

lemma move_ok:
  assumes "allDbOk e" and "games w gid = Some g" and "status g = Active" and "hasRow w gid uid"
  shows "fst (handlePlayerMove e w gid uid pY ts) = Inr ()
    \<and> games (snd (handlePlayerMove e w gid uid pY ts)) = (games w)(gid \<mapsto> afterMove e w gid g uid pY)
    \<and> sendCalls (snd (handlePlayerMove e w gid uid pY ts))
        = sendCalls w @ map (\<lambda>c. (c, afterMove e w gid g uid pY)) (channels w gid)"
proof -
  let ?g1 = "movePaddle g uid pY"
  let ?w1 = "w\<lparr>games := (games w)(gid \<mapsto> ?g1)\<rparr>"
  let ?t = "case ts of None \<Rightarrow> now e | Some t \<Rightarrow> if t = 0 then now e else t"
  let ?w2 = "?w1\<lparr>tbl_game_moves := tbl_game_moves ?w1 @ [(gid, uid, pY, ?t)]\<rparr>"
  have m: "db_isUserInGame e w gid uid = Some True"
    using assms(1,4) by (simp add: db_isUserInGame_def allDbOk_def)
  have r: "db_recordGameMove e ?w1 gid uid pY ?t = Some ?w2"
    by (rule db_recordGameMove_ok [OF assms(1)])
  have c: "channels ?w2 gid = channels w gid" by (simp add: channels_def)
  have a: "\<And>b. calculateAIMove ?w2 gid b (rndError e) = calculateAIMove w gid b (rndError e)"
    by (simp add: calculateAIMove_def)
  have h: "handlePlayerMove e w gid uid pY ts = aiResponse e ?w2 gid ?g1"
    using assms(2,3) m r by (simp add: handlePlayerMove_def Let_def)
  have "(updateBallPhysics (rndServe e)
           (if isAiGame ?g1 \<and> find isAi (players ?g1) \<noteq> None
            then aiPaddle ?g1 (calculateAIMove ?w2 gid (ball ?g1) (rndError e)) else ?g1))
          \<lparr>lastUpdate := now e\<rparr> = afterMove e w gid g uid pY"
    unfolding afterMove_def Let_def a ..
  with aiResponse_ok [OF assms(1), of ?w2 gid ?g1] c h show ?thesis
    by simp
qed

lemma move_storage_failure:
  assumes "games w gid = Some g" and "status g = Active"
    and "db_isUserInGame e w gid uid = Some True" and "\<not> db_ok e (RecordGameMove uid)"
  shows "handlePlayerMove e w gid uid pY ts
           = (Inl DbFailure, w\<lparr>games := (games w)(gid \<mapsto> movePaddle g uid pY)\<rparr>)"
  using assms by (simp add: handlePlayerMove_def Let_def db_recordGameMove_def)

lemma arena_facts:
  "status (duel ps b) = Active" "isAiGame (duel ps b) = False"
  "hasRow arena ''game-a1'' ''A''" "channels arena ''game-a1'' = [1, 2, 3]"
  "sendCalls arena = []" "allDbOk calmEnv"
  "db_isUserInGame moveLogDown arena ''game-a1'' ''A'' = Some True"
  "\<not> db_ok moveLogDown (RecordGameMove ''A'')"
  by (simp_all add: duel_def hasRow_def playerRows_def arena_def channels_def allDbOk_def
      calmEnv_def moveLogDown_def db_isUserInGame_def)

lemma integrate_serveBall:
  "integrate serveBall = \<lparr>x = 0.49, y = 0.5, velocityX = - 0.6, velocityY = 0, speed = 1\<rparr>"
  by (simp add: integrate_def serveBall_def deltaTime_def)

lemma afterMove_arena_ball:
  "ball (afterMove calmEnv arena ''game-a1'' (duel [human ''A'' Left, human ''B'' Right] serveBall) ''A'' pY)
     = \<lparr>x = 0.49, y = 0.5, velocityX = - 0.6, velocityY = 0, speed = 1\<rparr>"
proof -
  let ?g = "movePaddle (duel [human ''A'' Left, human ''B'' Right] serveBall) ''A'' pY"
  have b: "ball ?g = serveBall" by simp
  have "ball (updateBallPhysics (rndServe calmEnv) ?g) = bounceWalls (integrate (ball ?g))"
    by (rule free_flight) (simp_all add: b integrate_serveBall)
  then show ?thesis
    by (simp add: afterMove_def Let_def arena_facts integrate_serveBall bounceWalls_def)
qed

text \<open>
  Claim C7, as stated, fails: every storage call of a move is awaited in line, and a
  rejected one ends the move where it stands. When storage rejects the record of the
  move, the paddle write stays, but the ball is where it was (no physics step) and
  nothing is written to the three attached channels; the same move without the rejection
  moves the ball and writes to all three.
\<close>

theorem rejected_move_record_stops_move:
  "fst (handlePlayerMove moveLogDown arena ''game-a1'' ''A'' 0.9 None) = Inl DbFailure
   \<and> map_option ball (games (snd (handlePlayerMove moveLogDown arena ''game-a1'' ''A'' 0.9 None)) ''game-a1'')
       = Some serveBall
   \<and> map_option (map paddleY \<circ> players)
         (games (snd (handlePlayerMove moveLogDown arena ''game-a1'' ''A'' 0.9 None)) ''game-a1'')
       = Some [0.9, 0.5]
   \<and> channels arena ''game-a1'' = [1, 2, 3]
   \<and> sendCalls (snd (handlePlayerMove moveLogDown arena ''game-a1'' ''A'' 0.9 None)) = []
   \<and> map_option ball (games (snd (handlePlayerMove calmEnv arena ''game-a1'' ''A'' 0.9 None)) ''game-a1'')
       \<noteq> Some serveBall
   \<and> map fst (sendCalls (snd (handlePlayerMove calmEnv arena ''game-a1'' ''A'' 0.9 None))) = [1, 2, 3]"
proof -
  let ?g = "duel [human ''A'' Left, human ''B'' Right] serveBall"
  have f: "handlePlayerMove moveLogDown arena ''game-a1'' ''A'' 0.9 None
        = (Inl DbFailure, arena\<lparr>games := (games arena)(''game-a1'' \<mapsto> movePaddle ?g ''A'' 0.9)\<rparr>)"
    by (rule move_storage_failure [OF arena_game]) (simp_all add: arena_facts)
  have p: "map paddleY (players (movePaddle ?g ''A'' 0.9)) = [0.9, 0.5]"
    by (simp add: movePaddle_def human_def)
  note ok = move_ok [OF arena_facts(6) arena_game arena_facts(1) arena_facts(3), of "0.9" None]
  have "ball (afterMove calmEnv arena ''game-a1'' ?g ''A'' 0.9) \<noteq> serveBall"
    using afterMove_arena_ball [of "0.9"] by (simp add: serveBall_def)
  then show ?thesis
    using ok by (simp add: f p arena_facts comp_def)
qed

text \<open>
  Claim C7, amended. When no storage call is rejected, a move of a stored participant on
  an Active session succeeds: the registry holds the session after paddle write, response
  of the synthetic opponent, physics step and time stamp, and this snapshot is written to
  every attached channel. A rejected storage call does not roll back what was written to
  memory before it, but it ends the move: when the record of the move is rejected, the
  move fails with the storage error, the paddle write is kept, and neither physics step
  nor broadcast takes place.
\<close>

theorem move_completes_unless_storage_fails:
  "(allDbOk e \<and> games w gid = Some g \<and> status g = Active \<and> hasRow w gid uid \<longrightarrow>
      fst (handlePlayerMove e w gid uid pY ts) = Inr ()
      \<and> games (snd (handlePlayerMove e w gid uid pY ts)) = (games w)(gid \<mapsto> afterMove e w gid g uid pY)
      \<and> sendCalls (snd (handlePlayerMove e w gid uid pY ts))
          = sendCalls w @ map (\<lambda>c. (c, afterMove e w gid g uid pY)) (channels w gid))
   \<and> (games w gid = Some g \<and> status g = Active \<and> db_isUserInGame e w gid uid = Some True
       \<and> \<not> db_ok e (RecordGameMove uid) \<longrightarrow>
      handlePlayerMove e w gid uid pY ts
        = (Inl DbFailure, w\<lparr>games := (games w)(gid \<mapsto> movePaddle g uid pY)\<rparr>))"
  using move_ok [of e w gid g uid pY ts] move_storage_failure [of w gid g e uid pY ts]
  by blast

theorem move_completes_unless_storage_fails_witness:
  "allDbOk calmEnv
   \<and> games arena ''game-a1'' = Some (duel [human ''A'' Left, human ''B'' Right] serveBall)
   \<and> status (duel [human ''A'' Left, human ''B'' Right] serveBall) = Active
   \<and> hasRow arena ''game-a1'' ''A''
   \<and> fst (handlePlayerMove calmEnv arena ''game-a1'' ''A'' 7 None) = Inr ()
   \<and> map fst (sendCalls (snd (handlePlayerMove calmEnv arena ''game-a1'' ''A'' 7 None))) = [1, 2, 3]
   \<and> db_isUserInGame moveLogDown arena ''game-a1'' ''A'' = Some True
   \<and> \<not> db_ok moveLogDown (RecordGameMove ''A'')
   \<and> fst (handlePlayerMove moveLogDown arena ''game-a1'' ''A'' 7 None) = Inl DbFailure"
  using move_completes_unless_storage_fails
      [of calmEnv arena "''game-a1''" "duel [human ''A'' Left, human ''B'' Right] serveBall" "''A''" 7 None]
    move_completes_unless_storage_fails
      [of moveLogDown arena "''game-a1''" "duel [human ''A'' Left, human ''B'' Right] serveBall" "''A''" 7 None]
    arena_game
  by (simp add: arena_facts comp_def)

section \<open>The paddle position a move stores\<close>

lemma member_hasRow: "allDbOk e \<Longrightarrow> db_isUserInGame e w gid uid = Some True \<Longrightarrow> hasRow w gid uid"
  by (simp add: db_isUserInGame_def allDbOk_def)

text \<open>
  Claim C6. Let a move with paddle input \<open>pY\<close>, any real number, come from a participant of
  an Active session: the session is in the registry with status Active, the membership
  test of storage answers yes, and the roster holds a participant with that identity. Then
  the move is not refused for its input: it either completes or fails because storage
  rejected a call, and it completes when storage rejects none. In both cases the session
  is still in the registry afterwards, and the paddle position stored for that participant
  lies in [0.1, 0.9] and is the input clamped to that interval, \<open>max 0.1 (min 0.9 pY)\<close>
  (the one exception to the latter: a mover who is the synthetic participant of a session
  against the synthetic opponent, whose paddle the same move sets again).
\<close>

theorem stored_paddle_in_range:
  assumes "games w gid = Some g" and "status g = Active"
    and "db_isUserInGame e w gid uid = Some True"
    and "find (\<lambda>p. userId p = uid) (players g) = Some p"
  shows "(fst (handlePlayerMove e w gid uid pY ts) = Inr ()
          \<or> fst (handlePlayerMove e w gid uid pY ts) = Inl DbFailure)
       \<and> (allDbOk e \<longrightarrow> fst (handlePlayerMove e w gid uid pY ts) = Inr ())
       \<and> (\<exists>g' q. games (snd (handlePlayerMove e w gid uid pY ts)) gid = Some g'
           \<and> find (\<lambda>p. userId p = uid) (players g') = Some q
           \<and> 0.1 \<le> paddleY q \<and> paddleY q \<le> 0.9
           \<and> (\<not> (isAiGame g \<and> isAi p) \<longrightarrow> paddleY q = max 0.1 (min 0.9 pY)))"
proof -
  from move_accepted [OF assms(1-3)] obtain g'
    where g': "games (snd (handlePlayerMove e w gid uid pY ts)) gid = Some g'"
      and ev: "list_all2 evolves (players (movePaddle g uid pY)) (players g')" by blast
  from move_sameSeat [OF assms(1-3), of pY ts] g'
  have ss: "list_all2 (sameSeat (isAiGame g)) (players (movePaddle g uid pY)) (players g')"
    by simp
  from find_evolves [OF ev movePaddle_find [OF assms(4)]] obtain q
    where q: "find (\<lambda>p. userId p = uid) (players g') = Some q"
      and pq: "evolves (p\<lparr>paddleY := max 0.1 (min 0.9 pY)\<rparr>) q" by blast
  from find_sameSeat [OF ss movePaddle_find [OF assms(4)]] q
  have sq: "sameSeat (isAiGame g) (p\<lparr>paddleY := max 0.1 (min 0.9 pY)\<rparr>) q"
    by simp
  from pq clamp_range [of pY] have rg: "0.1 \<le> paddleY q \<and> paddleY q \<le> 0.9"
    by (auto simp: evolves_def)
  from sq have ex: "\<not> (isAiGame g \<and> isAi p) \<longrightarrow> paddleY q = max 0.1 (min 0.9 pY)"
    by (auto simp: sameSeat_def)
  have "fst (handlePlayerMove e w gid uid pY ts) = Inr ()" if ok: "allDbOk e"
    using move_ok [OF ok assms(1,2) member_hasRow [OF ok assms(3)]] by simp
  then have okk: "allDbOk e \<longrightarrow> fst (handlePlayerMove e w gid uid pY ts) = Inr ()"
    by simp
  from g' q rg ex okk move_outcome [OF assms(1-3)] show ?thesis by blast
qed

theorem stored_paddle_in_range_witness:
  "games arena ''game-a1'' = Some (duel [human ''A'' Left, human ''B'' Right] serveBall)
   \<and> status (duel [human ''A'' Left, human ''B'' Right] serveBall) = Active
   \<and> db_isUserInGame calmEnv arena ''game-a1'' ''A'' = Some True
   \<and> find (\<lambda>p. userId p = ''A'') (players (duel [human ''A'' Left, human ''B'' Right] serveBall))
       = Some (human ''A'' Left)
   \<and> allDbOk calmEnv
   \<and> \<not> (isAiGame (duel [human ''A'' Left, human ''B'' Right] serveBall) \<and> isAi (human ''A'' Left))
   \<and> fst (handlePlayerMove calmEnv arena ''game-a1'' ''A'' 7 None) = Inr ()
   \<and> (\<exists>g' q. games (snd (handlePlayerMove calmEnv arena ''game-a1'' ''A'' 7 None)) ''game-a1'' = Some g'
           \<and> find (\<lambda>p. userId p = ''A'') (players g') = Some q
           \<and> paddleY q = 0.9)
   \<and> (\<exists>g' q. games (snd (handlePlayerMove calmEnv arena ''game-a1'' ''A'' (- 2) None)) ''game-a1'' = Some g'
           \<and> find (\<lambda>p. userId p = ''A'') (players g') = Some q
           \<and> paddleY q = 0.1)
   \<and> (\<exists>g' q. games (snd (handlePlayerMove calmEnv arena ''game-a1'' ''A'' 0.3 None)) ''game-a1'' = Some g'
           \<and> find (\<lambda>p. userId p = ''A'') (players g') = Some q
           \<and> paddleY q = 0.3)"
proof -
  have h2: "status (duel [human ''A'' Left, human ''B'' Right] serveBall) = Active"
    by (simp add: duel_def)
  have h4: "find (\<lambda>p. userId p = ''A'') (players (duel [human ''A'' Left, human ''B'' Right] serveBall))
       = Some (human ''A'' Left)"
    by (simp add: human_def)
  have ok: "allDbOk calmEnv"
    by (simp add: allDbOk_def calmEnv_def)
  have na: "\<not> (isAiGame (duel [human ''A'' Left, human ''B'' Right] serveBall) \<and> isAi (human ''A'' Left))"
    by (simp add: duel_def)
  note t = stored_paddle_in_range [OF arena_game h2 arena_member h4]
  from t [of 7 None] ok have a: "fst (handlePlayerMove calmEnv arena ''game-a1'' ''A'' 7 None) = Inr ()"
    by blast
  from t [of 7 None] na obtain g1 q1
    where "games (snd (handlePlayerMove calmEnv arena ''game-a1'' ''A'' 7 None)) ''game-a1'' = Some g1"
      and "find (\<lambda>p. userId p = ''A'') (players g1) = Some q1"
      and "paddleY q1 = max 0.1 (min 0.9 7)"
    by blast
  then have b: "\<exists>g' q. games (snd (handlePlayerMove calmEnv arena ''game-a1'' ''A'' 7 None)) ''game-a1'' = Some g'
           \<and> find (\<lambda>p. userId p = ''A'') (players g') = Some q \<and> paddleY q = 0.9"
    by simp
  from t [of "- 2" None] na obtain g2 q2
    where "games (snd (handlePlayerMove calmEnv arena ''game-a1'' ''A'' (- 2) None)) ''game-a1'' = Some g2"
      and "find (\<lambda>p. userId p = ''A'') (players g2) = Some q2"
      and "paddleY q2 = max 0.1 (min 0.9 (- 2))"
    by blast
  then have c: "\<exists>g' q. games (snd (handlePlayerMove calmEnv arena ''game-a1'' ''A'' (- 2) None)) ''game-a1'' = Some g'
           \<and> find (\<lambda>p. userId p = ''A'') (players g') = Some q \<and> paddleY q = 0.1"
    by simp
  from t [of "0.3" None] na obtain g3 q3
    where "games (snd (handlePlayerMove calmEnv arena ''game-a1'' ''A'' 0.3 None)) ''game-a1'' = Some g3"
      and "find (\<lambda>p. userId p = ''A'') (players g3) = Some q3"
      and "paddleY q3 = max 0.1 (min 0.9 0.3)"
    by blast
  then have d: "\<exists>g' q. games (snd (handlePlayerMove calmEnv arena ''game-a1'' ''A'' 0.3 None)) ''game-a1'' = Some g'
           \<and> find (\<lambda>p. userId p = ''A'') (players g') = Some q \<and> paddleY q = 0.3"
    by simp
  from arena_game h2 arena_member h4 ok na a b c d show ?thesis
    by blast
qed

section \<open>Scores\<close>

lemma update_first_none: "find P ps = None \<Longrightarrow> update_first P f ps = ps"
  by (induction ps) (auto split: if_splits)

lemma updateScore_games:
  assumes "games w gid = Some g"
  shows "\<exists>g'. games (snd (updateScore e w gid uid sc)) gid = Some g'
     \<and> players g' = update_first (\<lambda>p. userId p = uid) (\<lambda>p. p\<lparr>score := sc\<rparr>) (players g)
     \<and> status g' = status g \<and> winningScore g' = winningScore g"
proof (cases "find (\<lambda>p. userId p = uid) (players g)")
  case None
  then show ?thesis
    using assms by (simp add: updateScore_def Let_def update_first_none)
next
  case (Some p)
  let ?g1 = "g\<lparr>players := update_first (\<lambda>p. userId p = uid) (\<lambda>p. p\<lparr>score := sc\<rparr>) (players g)\<rparr>"
  let ?w1 = "w\<lparr>games := (games w)(gid \<mapsto> ?g1)\<rparr>"
  show ?thesis
  proof (cases "db_updatePlayerScore e ?w1 gid uid sc")
    case None
    then show ?thesis using assms Some by (simp add: updateScore_def Let_def)
  next
    case (Some w2)
    from db_updatePlayerScore_frame [OF Some] have "games w2 = (games w)(gid \<mapsto> ?g1)" by simp
    then show ?thesis
      using assms \<open>find (\<lambda>p. userId p = uid) (players g) = Some p\<close> Some
      by (simp add: updateScore_def Let_def)
  qed
qed

lemma evolves_score:
  "list_all2 evolves ps qs \<Longrightarrow> list_all2 (\<lambda>p q. userId q = userId p \<and> score p \<le> score q) ps qs"
  by (erule list_all2_mono) (auto simp: evolves_def)

text \<open>
  Claim C10, as stated, fails: a score message overwrites the score with the value it
  carries. In a running session the score of A goes from 0 to 3 and then down to 1, and
  the session is Active throughout.
\<close>

theorem score_message_lowers_score:
  "map_option (map score \<circ> players) (games arena ''game-a1'') = Some [0, 0]
   \<and> map_option (map score \<circ> players)
        (games (snd (updateScore calmEnv arena ''game-a1'' ''A'' 3)) ''game-a1'') = Some [3, 0]
   \<and> map_option (map score \<circ> players)
        (games (snd (updateScore calmEnv (snd (updateScore calmEnv arena ''game-a1'' ''A'' 3))
                       ''game-a1'' ''A'' 1)) ''game-a1'') = Some [1, 0]
   \<and> map_option status
        (games (snd (updateScore calmEnv (snd (updateScore calmEnv arena ''game-a1'' ''A'' 3))
                       ''game-a1'' ''A'' 1)) ''game-a1'') = Some Active"
proof -
  let ?g = "duel [human ''A'' Left, human ''B'' Right] serveBall"
  let ?w1 = "snd (updateScore calmEnv arena ''game-a1'' ''A'' 3)"
  from updateScore_games [OF arena_game, of calmEnv "''A''" 3] obtain g1
    where g1: "games ?w1 ''game-a1'' = Some g1"
      and p1: "players g1 = update_first (\<lambda>p. userId p = ''A'') (\<lambda>p. p\<lparr>score := 3\<rparr>) (players ?g)"
      and s1: "status g1 = status ?g" by blast
  from updateScore_games [OF g1, of calmEnv "''A''" 1] obtain g2
    where g2: "games (snd (updateScore calmEnv ?w1 ''game-a1'' ''A'' 1)) ''game-a1'' = Some g2"
      and p2: "players g2 = update_first (\<lambda>p. userId p = ''A'') (\<lambda>p. p\<lparr>score := 1\<rparr>) (players g1)"
      and s2: "status g2 = status g1" by blast
  show ?thesis
    by (simp add: arena_game g1 g2 p1 p2 s1 s2 arena_facts human_def)
qed

text \<open>
  Claim C10, amended. A physics step, and a move event as a whole, leave every
  participant in place with a score that is not lower than before, in every session and
  whatever its status. A score message is the exception: it sets the score of the
  participant it names to the value it carries, which may be lower.
\<close>

theorem scores_never_drop_in_moves:
  "list_all2 (\<lambda>p q. userId q = userId p \<and> score p \<le> score q)
      (players g) (players (updateBallPhysics r g))
   \<and> (games w gid = Some g \<longrightarrow>
        (\<exists>g'. games (snd (handlePlayerMove e w gid uid pY ts)) gid = Some g'
            \<and> list_all2 (\<lambda>p q. userId q = userId p \<and> score p \<le> score q) (players g) (players g')))
   \<and> (games w gid = Some g \<and> find (\<lambda>p. userId p = uid) (players g) = Some p \<longrightarrow>
        (\<exists>g'. games (snd (updateScore e w gid uid sc)) gid = Some g'
            \<and> find (\<lambda>p. userId p = uid) (players g') = Some (p\<lparr>score := sc\<rparr>)))"
proof (intro conjI impI)
  show "list_all2 (\<lambda>p q. userId q = userId p \<and> score p \<le> score q)
      (players g) (players (updateBallPhysics r g))"
    by (rule evolves_score [OF physics_evolves])
next
  assume "games w gid = Some g"
  from move_evolves [OF this, of e uid pY ts] show
    "\<exists>g'. games (snd (handlePlayerMove e w gid uid pY ts)) gid = Some g'
       \<and> list_all2 (\<lambda>p q. userId q = userId p \<and> score p \<le> score q) (players g) (players g')"
    using evolves_score by blast
next
  assume a: "games w gid = Some g \<and> find (\<lambda>p. userId p = uid) (players g) = Some p"
  from updateScore_games [of w gid g e uid sc] a obtain g'
    where g': "games (snd (updateScore e w gid uid sc)) gid = Some g'"
      and ps: "players g' = update_first (\<lambda>p. userId p = uid) (\<lambda>p. p\<lparr>score := sc\<rparr>) (players g)"
    by blast
  have "find (\<lambda>p. userId p = uid) (players g') = Some (p\<lparr>score := sc\<rparr>)"
    unfolding ps using a
    by (intro find_update_first_same) simp_all
  with g' show "\<exists>g'. games (snd (updateScore e w gid uid sc)) gid = Some g'
            \<and> find (\<lambda>p. userId p = uid) (players g') = Some (p\<lparr>score := sc\<rparr>)" by blast
qed

theorem scores_never_drop_in_moves_witness:
  "games arena ''game-a1'' = Some (duel [human ''A'' Left, human ''B'' Right] serveBall)
   \<and> find (\<lambda>p. userId p = ''A'') (players (duel [human ''A'' Left, human ''B'' Right] serveBall))
       = Some (human ''A'' Left)
   \<and> (\<exists>g'. games (snd (handlePlayerMove calmEnv arena ''game-a1'' ''A'' 7 None)) ''game-a1'' = Some g'
         \<and> list_all2 (\<lambda>p q. userId q = userId p \<and> score p \<le> score q)
              (players (duel [human ''A'' Left, human ''B'' Right] serveBall)) (players g'))
   \<and> (\<exists>g'. games (snd (updateScore calmEnv arena ''game-a1'' ''A'' 3)) ''game-a1'' = Some g'
         \<and> find (\<lambda>p. userId p = ''A'') (players g') = Some ((human ''A'' Left)\<lparr>score := 3\<rparr>))"
proof -
  have h: "find (\<lambda>p. userId p = ''A'') (players (duel [human ''A'' Left, human ''B'' Right] serveBall))
       = Some (human ''A'' Left)"
    by (simp add: human_def)
  show ?thesis
    using scores_never_drop_in_moves
      [of "duel [human ''A'' Left, human ''B'' Right] serveBall" 0 arena "''game-a1''"
          calmEnv "''A''" 7 None "human ''A'' Left" 3]
      arena_game h
    by simp
qed

section \<open>Reaching and keeping the status Finished\<close>


lemma reached_checkGameEnd [simp]: "reached (checkGameEnd g) sd = reached g sd"
  by (simp add: reached_def checkGameEnd_def split: option.splits)

lemma checkScoring_status [simp]: "status (checkScoring r g) = status g"
  by (simp add: checkScoring_def split: option.splits)


lemma map_of_set_status:
  "map_of (map (\<lambda>(k, row). if k = gid then (k, f row) else (k, row)) rows) gid
     = map_option f (map_of rows gid)"
  by (induction rows) auto













section \<open>The synthetic opponent's step\<close>

text \<open>The position \<open>calculateAIMove\<close> returns is within the per-step displacement
  \<open>speed \<times> 0.02\<close> of the centre 0.5, for every ball, every configuration with a speed
  that is not negative and every random draw.\<close>

lemma clamp_contracts: "\<bar>max 0.1 (min 0.9 (0.5 + t)) - 0.5\<bar> \<le> \<bar>t :: real\<bar>"
  unfolding max_def min_def by (simp split: if_splits) linarith?

lemma capped_step: "0 \<le> m \<Longrightarrow> \<bar>sgn d * min \<bar>d\<bar> m\<bar> \<le> (m :: real)"
  by (cases "d = 0") (simp_all add: abs_mult abs_sgn_eq)

lemma ai_step_bounded_from_centre:
  assumes "0 \<le> aiSpeed c"
  shows "\<bar>aiMoveWith c b r - 0.5\<bar> \<le> aiSpeed c * 0.02"
proof -
  define d where "d = (if velocityX b > 0
             then max 0.1 (min 0.9 (y b + velocityY b * ((0.95 - x b) / velocityX b)))
             else y b) + (r - 0.5) * (1 - accuracy c) * 0.3 - 0.5"
  define m where "m = aiSpeed c * 0.02"
  have m0: "0 \<le> m" using assms by (simp add: m_def)
  have e: "aiMoveWith c b r = max 0.1 (min 0.9 (0.5 + sgn d * min \<bar>d\<bar> m))"
    unfolding aiMoveWith_def Let_def d_def m_def ..
  from clamp_contracts [of "sgn d * min \<bar>d\<bar> m"] capped_step [OF m0, of d] show ?thesis
    unfolding e m_def by linarith
qed
text \<open>
  Claim C2 against the code. A session against the tier easy (per-step displacement
  0.006) is created with the ball moving away from the synthetic side; the human moves
  twice, the noise of the aim being high the first time and low the second. After the
  first move the synthetic paddle is stored at 0.506. In the second move the aim is below
  the paddle, and the new stored position is 0.494: the step was taken from 0.5, not from
  the stored 0.506, and the paddle moved by 0.012, twice the displacement allowed.
\<close>

theorem synthetic_paddle_restarts_from_centre:
  "map_option (map paddleY \<circ> players) (games aiWorld ''ai-game-a1'') = Some [0.5, 0.5]
   \<and> map_option (map paddleY \<circ> players) (games aiWorld1 ''ai-game-a1'') = Some [0.5, 0.506]
   \<and> map_option ball (games aiWorld1 ''ai-game-a1'')
       = Some \<lparr>x = 0.49, y = 0.5, velocityX = - 0.6, velocityY = 0, speed = 1\<rparr>
   \<and> map_option (map paddleY \<circ> players) (games aiWorld2 ''ai-game-a1'') = Some [0.5, 0.494]
   \<and> aiSpeed (createAIOpponent Easy) * 0.02 = 0.006
   \<and> \<bar>0.494 - 0.506\<bar> > aiSpeed (createAIOpponent Easy) * 0.02"
  by code_simp

section \<open>Joining a full session\<close>

text \<open>When the participant count in storage has reached the stored maximum, a join that
  passes the room-code test is refused as full and nothing changes.\<close>

lemma join_refused_when_stored_count_full:
  assumes "db_findGameById e w gid = Some (Some game)"
    and "db_getGamePlayerCount e w gid = Some n" and "n \<ge> max_players game"
    and "\<not> (is_private game \<and> codeMismatch rc (room_code game))"
  shows "joinGame e w gid uid un rc = (Inl GameIsFull, w)"
  using assms by (simp add: joinGame_def)

text \<open>
  Claim C9 against the code. The capacity test of \<open>joinGame\<close> reads the participant count
  in storage, not the roster, and the two can differ. A creates a public session with two
  seats and leaves it: the session is dropped from the registry and its row stays in
  storage. B joins: the session is rebuilt from storage, where B's row has just been
  written, and B is then appended once more, so that the roster is B, B (its maximum 2,
  status Active) while storage counts one participant. A join of C to this session, whose
  roster is at its maximum, does not fail: it returns the session, and the roster is
  B, B, C.
\<close>

theorem join_accepted_into_full_roster:
  "map_option (map userId \<circ> players) (games rebuiltWorld ''game-a1'') = Some [''B'', ''B'']
   \<and> map_option maxPlayers (games rebuiltWorld ''game-a1'') = Some 2
   \<and> map_option status (games rebuiltWorld ''game-a1'') = Some Active
   \<and> db_getGamePlayerCount calmEnv rebuiltWorld ''game-a1'' = Some 1
   \<and> fst (joinGame calmEnv rebuiltWorld ''game-a1'' ''C'' ''C'' None) \<noteq> Inl GameIsFull
   \<and> map_sum id (map userId \<circ> players) (fst (joinGame calmEnv rebuiltWorld ''game-a1'' ''C'' ''C'' None))
       = Inr [''B'', ''B'', ''C'']
   \<and> map_option (map userId \<circ> players)
        (games (snd (joinGame calmEnv rebuiltWorld ''game-a1'' ''C'' ''C'' None)) ''game-a1'')
       = Some [''B'', ''B'', ''C'']"
  by code_simp

section \<open>Sides of Active sessions\<close>

lemma slotOk_cong:
  "games w' k = games w k \<Longrightarrow> map_of (tbl_games w') k = map_of (tbl_games w) k \<Longrightarrow>
   seats w' k = seats w k \<Longrightarrow> slotOk w' k = slotOk w k"
  by (simp add: slotOk_def)

lemma map_of_snoc:
  "map_of (rows @ [(gid, row)]) k
     = (case map_of rows k of None \<Rightarrow> (if k = gid then Some row else None) | Some v \<Rightarrow> Some v)"
  by (simp add: map_add_def split: option.splits)

lemma seats_snoc:
  "seats (w\<lparr>tbl_game_players := tbl_game_players w @ [r]\<rparr>) k
     = seats w k + (if game_id r = k then 1 else 0)"
  by (simp add: seats_def playerRows_def)

lemma seats_frame [simp]:
  "seats (w\<lparr>games := gs\<rparr>) k = seats w k"
  "seats (w\<lparr>tbl_games := tg\<rparr>) k = seats w k"
  "seats (w\<lparr>gameConnections := gc\<rparr>) k = seats w k"
  "seats (w\<lparr>aiOpponents := ao\<rparr>) k = seats w k"
  "seats (broadcastGameState e w gid g) k = seats w k"
  by (simp_all add: seats_def playerRows_def)

lemma hasRow_seats0: "seats w k = 0 \<Longrightarrow> \<not> hasRow w k uid"
  by (simp add: seats_def hasRow_def)

lemma hasRow_frame [simp]:
  "hasRow (w\<lparr>games := gs\<rparr>) k u = hasRow w k u"
  "hasRow (w\<lparr>tbl_games := tg\<rparr>) k u = hasRow w k u"
  by (simp_all add: hasRow_def playerRows_def)

text \<open>What a successful \<open>db_createGame\<close> under the two-seat default does.\<close>

lemma db_createGame_two:
  assumes "db_createGame e w gid cb code priv 2 ai diff = Some w1"
  shows "map_of (tbl_games w) gid = None"
    and "\<exists>row. w1 = w\<lparr>tbl_games := tbl_games w @ [(gid, row)]\<rparr>
            \<and> max_players row = 2 \<and> db_status row = Waiting"
  using assms by (auto simp: db_createGame_def Let_def split: if_splits)

lemma slot_fresh:
  "slotOk w gid \<Longrightarrow> map_of (tbl_games w) gid = None \<Longrightarrow> games w gid = None \<and> seats w gid = 0"
  by (auto simp: slotOk_def slotShape_def split: option.splits)

lemma db_addPlayerToGame_ok:
  "allDbOk e \<Longrightarrow> \<not> hasRow w gid uid \<Longrightarrow>
   db_addPlayerToGame e w gid uid ai
     = Some (w\<lparr>tbl_game_players := tbl_game_players w @
               [\<lparr>game_id = gid, user_id = uid, is_ai = ai, db_score = 0\<rparr>]\<rparr>)"
  by (simp add: db_addPlayerToGame_def allDbOk_def)

lemma create_keeps:
  assumes inv: "\<And>k. slotOk w k" and ok: "allDbOk e"
  shows "slotOk (snd (createPvPGame e w uid un priv 2)) k"
proof -
  define gid where "gid = ''game-'' @ freshId e"
  define code where "code = (if priv then Some (freshCode e) else None)"
  show ?thesis
  proof (cases "db_createGame e w gid uid code priv 2 False None")
    case None
    then show ?thesis using inv by (simp add: createPvPGame_def Let_def gid_def code_def)
  next
    case (Some w1)
    from db_createGame_two [OF Some] obtain row
      where fresh: "map_of (tbl_games w) gid = None"
        and w1: "w1 = w\<lparr>tbl_games := tbl_games w @ [(gid, row)]\<rparr>"
        and row: "max_players row = 2" "db_status row = Waiting" by blast
    from slot_fresh [OF inv fresh] have g0: "games w gid = None" and s0: "seats w gid = 0"
      by simp_all
    define r where "r = \<lparr>game_id = gid, user_id = uid, is_ai = False, db_score = 0\<rparr>"
    define w2 where "w2 = w1\<lparr>tbl_game_players := tbl_game_players w1 @ [r]\<rparr>"
    have add: "db_addPlayerToGame e w1 gid uid False = Some w2"
      unfolding w2_def r_def
      by (rule db_addPlayerToGame_ok [OF ok]) (simp add: w1 hasRow_seats0 [OF s0])
    define g where "g = \<lparr>gameId = gid,
                          players = [\<lparr>userId = uid, username = un, paddleY = 0.5,
                                      score = 0, isAi = False, side = Left\<rparr>],
                          ball = initializeBall (rndDir e) (rndSpin e),
                          status = Waiting, isPrivate = priv, maxPlayers = 2,
                          roomCode = code, isAiGame = False, difficulty = None,
                          lastUpdate = now e, winningScore = 11, gameStartTime = None\<rparr>"
    have res: "snd (createPvPGame e w uid un priv 2)
        = w2\<lparr>games := (games w2)(gid \<mapsto> g), gameConnections := (gameConnections w2)(gid \<mapsto> [])\<rparr>"
      using Some add by (simp add: createPvPGame_def Let_def gid_def code_def g_def)
    show ?thesis
    proof (cases "k = gid")
      case True
      have "games (snd (createPvPGame e w uid un priv 2)) gid = Some g"
        and "map_of (tbl_games (snd (createPvPGame e w uid un priv 2))) gid = Some row"
        and "seats (snd (createPvPGame e w uid un priv 2)) gid = 1"
        using fresh s0 by (simp_all add: res w2_def w1 r_def map_add_def seats_def playerRows_def)
      then show ?thesis
        using row True by (simp add: slotOk_def slotShape_def g_def)
    next
      case False
      have "slotOk (snd (createPvPGame e w uid un priv 2)) k = slotOk w k"
        using False
        by (intro slotOk_cong) (simp_all add: res w2_def w1 r_def map_add_def seats_def
            playerRows_def split: option.splits)
      then show ?thesis using inv by simp
    qed
  qed
qed


lemma createAI_keeps:
  assumes inv: "\<And>k. slotOk w k" and ok: "allDbOk e"
  shows "slotOk (snd (createAIGame e w uid un t)) k"
proof -
  define gid where "gid = ''ai-game-'' @ freshId e"
  show ?thesis
  proof (cases "db_createGame e w gid uid None False 2 True (Some (tierName t))")
    case None
    then show ?thesis using inv by (simp add: createAIGame_def Let_def gid_def)
  next
    case (Some w1)
    from db_createGame_two [OF Some] obtain row
      where fresh: "map_of (tbl_games w) gid = None"
        and w1: "w1 = w\<lparr>tbl_games := tbl_games w @ [(gid, row)]\<rparr>"
        and row: "max_players row = 2" "db_status row = Waiting" by blast
    from slot_fresh [OF inv fresh] have g0: "games w gid = None" and s0: "seats w gid = 0"
      by simp_all
    define r where "r = \<lparr>game_id = gid, user_id = uid, is_ai = False, db_score = 0\<rparr>"
    define w2 where "w2 = w1\<lparr>tbl_game_players := tbl_game_players w1 @ [r]\<rparr>"
    have add: "db_addPlayerToGame e w1 gid uid False = Some w2"
      unfolding w2_def r_def
      by (rule db_addPlayerToGame_ok [OF ok]) (simp add: w1 hasRow_seats0 [OF s0])
    have rows2: "playerRows w2 gid = [r]"
      using s0 by (simp add: w2_def w1 r_def seats_def playerRows_def)
    show ?thesis
    proof (cases "uid = ''ai''")
      case True
      have "hasRow w2 gid ''ai''"
        using True by (simp add: hasRow_def rows2 r_def)
      then have "db_addPlayerToGame e w2 gid ''ai'' True = None"
        by (simp add: db_addPlayerToGame_def)
      then have res: "snd (createAIGame e w uid un t) = w2"
        using Some add by (simp add: createAIGame_def Let_def gid_def)
      show ?thesis
      proof (cases "k = gid")
        case True
        have "games w2 gid = None" "map_of (tbl_games w2) gid = Some row" "seats w2 gid = 1"
          using fresh g0 rows2 by (simp_all add: w2_def w1 map_add_def seats_def)
        then show ?thesis using row True by (simp add: res slotOk_def slotShape_def)
      next
        case False
        have "slotOk w2 k = slotOk w k"
          using False
          by (intro slotOk_cong) (simp_all add: w2_def w1 r_def map_add_def seats_def
              playerRows_def split: option.splits)
        then show ?thesis using inv by (simp add: res)
      qed
    next
      case False
      define r' where "r' = \<lparr>game_id = gid, user_id = ''ai'', is_ai = True, db_score = 0\<rparr>"
      define w3 where "w3 = w2\<lparr>tbl_game_players := tbl_game_players w2 @ [r']\<rparr>"
      have "\<not> hasRow w2 gid ''ai''"
        using False by (auto simp: hasRow_def rows2 r_def)
      from db_addPlayerToGame_ok [OF ok this, of True]
      have add2: "db_addPlayerToGame e w2 gid ''ai'' True = Some w3"
        by (simp add: w3_def r'_def)
      define g where "g = \<lparr>gameId = gid,
                              players = [\<lparr>userId = uid, username = un, paddleY = 0.5,
                                          score = 0, isAi = False, side = Left\<rparr>,
                                         \<lparr>userId = ''ai'', username = ''AI'', paddleY = 0.5,
                                          score = 0, isAi = True, side = Right\<rparr>],
                              ball = initializeBall (rndDir e) (rndSpin e),
                              status = Active, isPrivate = False, maxPlayers = 2,
                              roomCode = None, isAiGame = True,
                              difficulty = Some (tierName t),
                              lastUpdate = now e, winningScore = 11,
                              gameStartTime = Some (now e)\<rparr>"
      have res: "snd (createAIGame e w uid un t)
          = w3\<lparr>aiOpponents := (aiOpponents w3)(gid \<mapsto> createAIOpponent t),
                games := (games w3)(gid \<mapsto> g),
                gameConnections := (gameConnections w3)(gid \<mapsto> [])\<rparr>"
        using Some add add2 by (simp add: createAIGame_def Let_def gid_def g_def)
      show ?thesis
      proof (cases "k = gid")
        case True
        have "games (snd (createAIGame e w uid un t)) gid = Some g"
          and "map_of (tbl_games (snd (createAIGame e w uid un t))) gid = Some row"
          and "seats (snd (createAIGame e w uid un t)) gid = 2"
          using fresh s0
          by (simp_all add: res w3_def w2_def w1 r_def r'_def map_add_def seats_def playerRows_def)
        then show ?thesis
          using row True by (simp add: slotOk_def slotShape_def g_def)
      next
        case False
        have "slotOk (snd (createAIGame e w uid un t)) k = slotOk w k"
          using False
          by (intro slotOk_cong) (simp_all add: res w3_def w2_def w1 r_def r'_def map_add_def
              seats_def playerRows_def split: option.splits)
        then show ?thesis using inv by simp
      qed
    qed
  qed
qed


lemma map_of_set_status_other:
  "k \<noteq> gid \<Longrightarrow>
   map_of (map (\<lambda>(k, row). if k = gid then (k, f row) else (k, row)) rows) k = map_of rows k"
  by (induction rows) auto

lemma addJoiner_second:
  assumes "allDbOk e" and "length (players g) = 1" and "maxPlayers g = 2"
  shows "\<exists>g3. games (snd (addJoiner e w gid g uid un)) = (games w)(gid \<mapsto> g3)
           \<and> status g3 = Active \<and> map side (players g3) = map side (players g) @ [Right]
           \<and> maxPlayers g3 = 2
           \<and> tbl_games (snd (addJoiner e w gid g uid un))
               = map (\<lambda>(k, row). if k = gid then (k, row\<lparr>db_status := Active\<rparr>) else (k, row))
                   (tbl_games w)
           \<and> tbl_game_players (snd (addJoiner e w gid g uid un)) = tbl_game_players w"
  using assms
  by (intro exI [of _ "g\<lparr>players := players g @
        [\<lparr>userId = uid, username = un, paddleY = 0.5, score = 0, isAi = False, side = Right\<rparr>],
        status := Active, gameStartTime := Some (now e), lastUpdate := now e\<rparr>"])
    (simp add: addJoiner_def Let_def db_updateGameStatus_def allDbOk_def)

lemma addJoiner_third:
  assumes "length (players g) = 2" and "maxPlayers g = 2"
  shows "\<exists>g3. games (snd (addJoiner e w gid g uid un)) = (games w)(gid \<mapsto> g3)
           \<and> status g3 = status g \<and> length (players g3) = 3 \<and> maxPlayers g3 = 2
           \<and> tbl_games (snd (addJoiner e w gid g uid un)) = tbl_games w
           \<and> tbl_game_players (snd (addJoiner e w gid g uid un)) = tbl_game_players w"
  using assms
  by (intro exI [of _ "g\<lparr>players := players g @
        [\<lparr>userId = uid, username = un, paddleY = 0.5, score = 0, isAi = False, side = Left\<rparr>],
        lastUpdate := now e\<rparr>"])
    (simp add: addJoiner_def Let_def)

lemma seats_eq: "tbl_game_players w' = tbl_game_players w \<Longrightarrow> seats w' k = seats w k"
  by (simp add: seats_def playerRows_def)

lemma join_keeps:
  assumes inv: "\<And>k. slotOk w k" and ok: "allDbOk e"
  shows "slotOk (snd (joinGame e w gid uid un rc)) k"
proof (cases "snd (joinGame e w gid uid un rc) = w")
  case True
  then show ?thesis using inv by simp
next
  case False
  have f: "db_findGameById e w gid = Some (map_of (tbl_games w) gid)"
    and c: "db_getGamePlayerCount e w gid = Some (int (seats w gid))"
    and m: "db_isUserInGame e w gid uid = Some (hasRow w gid uid)"
    using ok by (simp_all add: db_findGameById_def db_getGamePlayerCount_def db_isUserInGame_def
        allDbOk_def seats_def)
  from False obtain game where game: "map_of (tbl_games w) gid = Some game"
    and lt: "int (seats w gid) < max_players game" and nr: "\<not> hasRow w gid uid"
    by (cases "map_of (tbl_games w) gid"; cases "hasRow w gid uid")
      (auto simp: joinGame_def f c m split: if_splits)
  have go: "\<not> (is_private game \<and> codeMismatch rc (room_code game))"
    using False game by (auto simp: joinGame_def f)
  define r where "r = \<lparr>game_id = gid, user_id = uid, is_ai = False, db_score = 0\<rparr>"
  define w1 where "w1 = w\<lparr>tbl_game_players := tbl_game_players w @ [r]\<rparr>"
  have add: "db_addPlayerToGame e w gid uid False = Some w1"
    unfolding w1_def r_def by (rule db_addPlayerToGame_ok [OF ok nr])
  from inv [of gid] game lt have mx: "max_players game = 2" and s1: "seats w gid = 1"
    by (auto simp: slotOk_def slotShape_def split: option.splits)
  have w1s: "tbl_games w1 = tbl_games w" "games w1 = games w"
    by (simp_all add: w1_def)
  have s2: "seats w1 gid = 2"
    using s1 by (simp add: w1_def r_def seats_def playerRows_def)
  have so: "seats w1 j = seats w j" if "j \<noteq> gid" for j
    using that by (simp add: w1_def r_def seats_def playerRows_def)
  have j: "joinGame e w gid uid un rc
      = (case games w1 gid of
            Some g \<Rightarrow> addJoiner e w1 gid g uid un
          | None \<Rightarrow>
             (case db_getGamePlayers e w1 gid of
                None \<Rightarrow> (Inl DbFailure, w1)
              | Some rows \<Rightarrow>
                 (let g = reconstruct e gid game rows
                  in addJoiner e (w1\<lparr>games := (games w1)(gid \<mapsto> g)\<rparr>) gid g uid un)))"
    using game go lt nr add by (auto simp: joinGame_def f c m)
  show ?thesis
  proof (cases "games w gid")
    case (Some g)
    with inv [of gid] game s1 have g: "status g = Waiting" "map side (players g) = [Left]"
      "maxPlayers g = 2"
      by (auto simp: slotOk_def slotShape_def)
    from g(2) have len: "length (players g) = 1"
      using length_map [of side "players g"] by simp
    have res: "snd (joinGame e w gid uid un rc) = snd (addJoiner e w1 gid g uid un)"
      using Some by (simp add: j w1s)
    from addJoiner_second [OF ok len g(3), of w1 gid uid un] obtain g3
      where a: "games (snd (addJoiner e w1 gid g uid un)) = (games w1)(gid \<mapsto> g3)"
        "status g3 = Active" "map side (players g3) = map side (players g) @ [Right]"
        "maxPlayers g3 = 2"
        "tbl_games (snd (addJoiner e w1 gid g uid un))
               = map (\<lambda>(k, row). if k = gid then (k, row\<lparr>db_status := Active\<rparr>) else (k, row))
                   (tbl_games w1)"
        "tbl_game_players (snd (addJoiner e w1 gid g uid un)) = tbl_game_players w1"
      by blast
    show ?thesis
    proof (cases "k = gid")
      case True
      have "map_of (tbl_games (snd (joinGame e w gid uid un rc))) gid
              = Some (game\<lparr>db_status := Active\<rparr>)"
        using game by (simp add: res a(5) map_of_set_status w1s)
      moreover have "seats (snd (joinGame e w gid uid un rc)) gid = 2"
        using seats_eq [OF a(6)] s2 by (simp add: res)
      moreover have "games (snd (joinGame e w gid uid un rc)) gid = Some g3"
        by (simp add: res a(1))
      ultimately show ?thesis
        using True a(2,3,4) g(2) mx by (simp add: slotOk_def slotShape_def)
    next
      case False
      have "slotOk (snd (joinGame e w gid uid un rc)) k = slotOk w k"
      proof (rule slotOk_cong)
        show "games (snd (joinGame e w gid uid un rc)) k = games w k"
          using False by (simp add: res a(1) w1s)
        show "map_of (tbl_games (snd (joinGame e w gid uid un rc))) k = map_of (tbl_games w) k"
          using False by (simp add: res a(5) map_of_set_status_other w1s)
        show "seats (snd (joinGame e w gid uid un rc)) k = seats w k"
          using seats_eq [OF a(6)] so [OF False] by (simp add: res)
      qed
      then show ?thesis using inv by simp
    qed
  next
    case None
    with inv [of gid] game have st: "db_status game = Waiting"
      by (auto simp: slotOk_def slotShape_def)
    define rows where "rows = map (\<lambda>row. (row, tbl_users w1 (user_id row)))
        (sort_key user_id (playerRows w1 gid))"
    define g where "g = reconstruct e gid game rows"
    have gp: "db_getGamePlayers e w1 gid = Some rows"
      using ok by (simp add: db_getGamePlayers_def allDbOk_def rows_def)
    have "length rows = 2"
      using s2 by (simp add: rows_def seats_def)
    then have len: "length (players g) = 2"
      by (cases rows) (simp_all add: g_def reconstruct_def)
    have gs: "status g = Waiting" "maxPlayers g = 2"
      using st mx by (simp_all add: g_def reconstruct_def)
    define w1' where "w1' = w1\<lparr>games := (games w1)(gid \<mapsto> g)\<rparr>"
    have res: "snd (joinGame e w gid uid un rc) = snd (addJoiner e w1' gid g uid un)"
      using None gp by (simp add: j w1s w1'_def g_def Let_def)
    from addJoiner_third [OF len gs(2), of e w1' gid uid un] obtain g3
      where a: "games (snd (addJoiner e w1' gid g uid un)) = (games w1')(gid \<mapsto> g3)"
        "status g3 = status g" "length (players g3) = 3" "maxPlayers g3 = 2"
        "tbl_games (snd (addJoiner e w1' gid g uid un)) = tbl_games w1'"
        "tbl_game_players (snd (addJoiner e w1' gid g uid un)) = tbl_game_players w1'"
      by blast
    have sw: "seats w1' j = seats w1 j" for j
      by (simp add: w1'_def)
    have w1's: "tbl_games w1' = tbl_games w" "games w1' = (games w)(gid \<mapsto> g)"
      by (simp_all add: w1'_def w1s)
    show ?thesis
    proof (cases "k = gid")
      case True
      have "map_of (tbl_games (snd (joinGame e w gid uid un rc))) gid = Some game"
        using game by (simp add: res a(5) w1's)
      moreover have "seats (snd (joinGame e w gid uid un rc)) gid = 2"
        using seats_eq [OF a(6)] s2 sw by (simp add: res)
      moreover have "games (snd (joinGame e w gid uid un rc)) gid = Some g3"
        by (simp add: res a(1))
      ultimately show ?thesis
        using True a(2,3,4) gs mx by (simp add: slotOk_def slotShape_def)
    next
      case False
      have "slotOk (snd (joinGame e w gid uid un rc)) k = slotOk w k"
      proof (rule slotOk_cong)
        show "games (snd (joinGame e w gid uid un rc)) k = games w k"
          using False by (simp add: res a(1) w1's)
        show "map_of (tbl_games (snd (joinGame e w gid uid un rc))) k = map_of (tbl_games w) k"
          by (simp add: res a(5) w1's)
        show "seats (snd (joinGame e w gid uid un rc)) k = seats w k"
          using seats_eq [OF a(6)] so [OF False] sw by (simp add: res)
      qed
      then show ?thesis using inv by simp
    qed
  qed
qed


lemma applyOp_keeps:
  assumes "\<And>k. slotOk w k" and "allDbOk e"
  shows "slotOk (applyOp e w op) k"
  using assms by (cases op) (simp_all add: create_keeps createAI_keeps join_keeps)

lemma run_keeps:
  "(\<And>j. slotOk w j) \<Longrightarrow> \<forall>step \<in> set ops. allDbOk (fst step) \<Longrightarrow> slotOk (run w ops) k"
proof (induction ops arbitrary: w)
  case Nil
  then show ?case by simp
next
  case (Cons step ops)
  have a: "slotOk (applyOp (fst step) w (snd step)) j" for j
    using Cons.prems by (intro applyOp_keeps) simp_all
  have b: "\<forall>s \<in> set ops. allDbOk (fst s)"
    using Cons.prems(2) by simp
  from Cons.IH [OF a b] show ?case by simp
qed

lemma blank_slots: "slotOk (emptyWorld\<lparr>tbl_users := us\<rparr>) k"
  by (simp add: slotOk_def slotShape_def emptyWorld_def seats_def playerRows_def)

text \<open>
  Claim C3, as stated, fails. A session created with three seats is Active once the third
  participant has joined, and then has two participants on the Left and one on the Right.
  A two-seat session stays Active when one of its participants leaves, with the Left
  participant alone.
\<close>

theorem active_sessions_with_other_rosters:
  "map_option status (games crowdWorld ''game-a1'') = Some Active
   \<and> map_option (map side \<circ> players) (games crowdWorld ''game-a1'') = Some [Left, Right, Left]
   \<and> map_option maxPlayers (games crowdWorld ''game-a1'') = Some 3
   \<and> map_option status (games privateWorld ''game-a1'') = Some Active
   \<and> map_option maxPlayers (games privateWorld ''game-a1'') = Some 2
   \<and> fst (leaveGame calmEnv privateWorld ''game-a1'' ''B'') = Inr ()
   \<and> map_option status (games (snd (leaveGame calmEnv privateWorld ''game-a1'' ''B'')) ''game-a1'')
       = Some Active
   \<and> map_option (map side \<circ> players)
        (games (snd (leaveGame calmEnv privateWorld ''game-a1'' ''B'')) ''game-a1'') = Some [Left]"
  by code_simp

text \<open>
  Claim C3, amended. In every state reached from the empty service by a history of
  creations with the default of two seats, creations against the synthetic opponent and
  joins, in none of which storage rejects a call, every session of the registry whose
  status is Active has exactly one participant on the Left and exactly one on the Right.
\<close>

theorem active_two_seat_session_one_per_side:
  assumes "\<forall>step \<in> set ops. allDbOk (fst step)"
    and "games (run (emptyWorld\<lparr>tbl_users := us\<rparr>) ops) gid = Some g"
    and "status g = Active"
  shows "length (filter (onSide Left) (players g)) = 1
       \<and> length (filter (onSide Right) (players g)) = 1"
proof -
  have "slotOk (run (emptyWorld\<lparr>tbl_users := us\<rparr>) ops) gid"
    using assms(1) by (intro run_keeps blank_slots)
  with assms(2,3) have "map side (players g) = [Left, Right]"
    by (auto simp: slotOk_def slotShape_def split: option.splits)
  then obtain p q where "players g = [p, q]" "side p = Left" "side q = Right"
    by (auto simp: map_eq_Cons_conv)
  then show ?thesis by (simp add: onSide_def)
qed

lemma duo_history:
  "run (emptyWorld\<lparr>tbl_users := Map.empty\<rparr>)
     [(calmEnv, Create ''A'' ''A'' True), (calmEnv, Join ''game-a1'' ''B'' ''B'' (Some ''ABC123''))]
   = privateWorld"
  by (simp add: privateWorld_def emptyWorld_def)

lemma privateWorld_game:
  "games privateWorld ''game-a1'' =
     Some ((duel [human ''A'' Left, human ''B'' Right] serveBall)
            \<lparr>isPrivate := True, roomCode := Some ''ABC123''\<rparr>)"
  by code_simp

theorem active_two_seat_session_one_per_side_witness:
  "allDbOk (fst (calmEnv, Create ''A'' ''A'' True))
   \<and> allDbOk (fst (calmEnv, Join ''game-a1'' ''B'' ''B'' (Some ''ABC123'')))
   \<and> games (run (emptyWorld\<lparr>tbl_users := Map.empty\<rparr>)
         [(calmEnv, Create ''A'' ''A'' True), (calmEnv, Join ''game-a1'' ''B'' ''B'' (Some ''ABC123''))])
        ''game-a1''
       = Some ((duel [human ''A'' Left, human ''B'' Right] serveBall)
            \<lparr>isPrivate := True, roomCode := Some ''ABC123''\<rparr>)
   \<and> status ((duel [human ''A'' Left, human ''B'' Right] serveBall)
            \<lparr>isPrivate := True, roomCode := Some ''ABC123''\<rparr>) = Active
   \<and> length (filter (onSide Left) (players ((duel [human ''A'' Left, human ''B'' Right] serveBall)
            \<lparr>isPrivate := True, roomCode := Some ''ABC123''\<rparr>))) = 1
   \<and> length (filter (onSide Right) (players ((duel [human ''A'' Left, human ''B'' Right] serveBall)
            \<lparr>isPrivate := True, roomCode := Some ''ABC123''\<rparr>))) = 1"
proof -
  let ?ops = "[(calmEnv, Create ''A'' ''A'' True),
               (calmEnv, Join ''game-a1'' ''B'' ''B'' (Some ''ABC123''))]"
  let ?g = "(duel [human ''A'' Left, human ''B'' Right] serveBall)
            \<lparr>isPrivate := True, roomCode := Some ''ABC123''\<rparr>"
  have h1: "\<forall>step \<in> set ?ops. allDbOk (fst step)"
    by (simp add: allDbOk_def calmEnv_def)
  have h2: "games (run (emptyWorld\<lparr>tbl_users := Map.empty\<rparr>) ?ops) ''game-a1'' = Some ?g"
    by (simp only: duo_history privateWorld_game)
  have h3: "status ?g = Active" by (simp add: duel_def)
  from active_two_seat_session_one_per_side [OF h1 h2 h3] h1 h2 h3 show ?thesis
    by (simp add: allDbOk_def calmEnv_def)
qed


end
